theory Spec2Isabelle
  imports
    Complex_Main
    "HOL-Library.Sublist"
    "HOL-Library.Multiset"
    "HOL-Library.Char_ord"
    "HOL-Library.List_Lexorder"
    "HOL-Library.Product_Lexorder"
begin

section \<open>k8s\_inspector.py: cluster issue classification and the manifest apply gate\<close>

text \<open>
  A shallow embedding of \<^verbatim>\<open>k8s_inspector.py\<close>. Python exceptions are values of
  \<open>exn\<close>; a function that may raise returns \<open>exn + 'a\<close> with \<open>Inl\<close> for the raised
  exception. Attributes that the Kubernetes client may leave as \<^verbatim>\<open>None\<close> and that
  the code tests or defaults are \<open>option\<close> fields. Attributes that the code only
  interpolates into an f-string are held as their \<^verbatim>\<open>str()\<close> rendering, with
  \<open>py_str\<close> giving \<^verbatim>\<open>"None"\<close> for an absent string. The objects the code
  dereferences without a test (\<^verbatim>\<open>metadata\<close>, \<^verbatim>\<open>spec\<close>, \<^verbatim>\<open>status\<close>, \<^verbatim>\<open>state\<close>,
  \<^verbatim>\<open>last_state\<close>, \<^verbatim>\<open>involved_object\<close>) are present, as the API server returns them,
  and their fields are fields of the enclosing record, named by their path.
\<close>

subsection \<open>Python values\<close>

datatype exn =
    ApiException string
  | SystemExit int
  | TypeError string
  | OtherException string

text \<open>An issue is the dict with the four keys every classifier fills.\<close>

record issue =
  severity :: string
  title :: string
  detail :: string
  suggestion :: string

text \<open>\<^verbatim>\<open>if namespace:\<close> is false for \<^verbatim>\<open>None\<close> and for the empty string.\<close>

fun truthy_str :: "string option \<Rightarrow> bool" where
  "truthy_str None = False"
| "truthy_str (Some s) = (s \<noteq> [])"

text \<open>\<^verbatim>\<open>str(x)\<close> of an optional string, as an f-string renders it.\<close>

fun py_str :: "string option \<Rightarrow> string" where
  "py_str None = ''None''"
| "py_str (Some s) = s"

text \<open>\<^verbatim>\<open>x or ""\<close>, \<^verbatim>\<open>x or 0\<close> and \<^verbatim>\<open>x or []\<close>.\<close>

fun or_str :: "string option \<Rightarrow> string \<Rightarrow> string" where
  "or_str None d = d"
| "or_str (Some s) d = (if s = [] then d else s)"

fun or0 :: "int option \<Rightarrow> int" where
  "or0 None = 0"
| "or0 (Some n) = (if n = 0 then 0 else n)"

fun or_nil :: "'a list option \<Rightarrow> 'a list" where
  "or_nil None = []"
| "or_nil (Some xs) = xs"

text \<open>\<^verbatim>\<open>str(n)\<close> of a Python integer: decimal digits, a minus sign when negative.\<close>

fun digit_char :: "nat \<Rightarrow> char" where
  "digit_char n = ''0123456789'' ! n"

fun str_nat :: "nat \<Rightarrow> string" where
  "str_nat n = (if n < 10 then [digit_char n] else str_nat (n div 10) @ [digit_char (n mod 10)])"

declare str_nat.simps [simp del]

definition str_int :: "int \<Rightarrow> string" where
  "str_int i = (if i < 0 then CHR ''-'' # str_nat (nat (- i)) else str_nat (nat i))"

text \<open>\<^verbatim>\<open>pat in s\<close> on two Python strings: \<open>pat\<close> occurs in \<open>s\<close> as a contiguous run.\<close>

fun str_contains :: "string \<Rightarrow> string \<Rightarrow> bool" where
  "str_contains pat [] = (pat = [])"
| "str_contains pat (c # cs) = (prefix pat (c # cs) \<or> str_contains pat cs)"

text \<open>\<^verbatim>\<open>sep.join(xs)\<close>.\<close>

fun py_join :: "string \<Rightarrow> string list \<Rightarrow> string" where
  "py_join sep [] = []"
| "py_join sep [x] = x"
| "py_join sep (x # y # ys) = x @ sep @ py_join sep (y # ys)"

text \<open>
  \<^verbatim>\<open>except Exception\<close> catches every exception of the model but \<^verbatim>\<open>SystemExit\<close>;
  \<open>str_exn\<close> is \<^verbatim>\<open>str(e)\<close>.
\<close>

fun is_Exception :: "exn \<Rightarrow> bool" where
  "is_Exception (SystemExit c) = False"
| "is_Exception e = True"

fun str_exn :: "exn \<Rightarrow> string" where
  "str_exn (ApiException s) = s"
| "str_exn (SystemExit c) = str_int c"
| "str_exn (TypeError s) = s"
| "str_exn (OtherException s) = s"

subsection \<open>Deployments\<close>

record deployment_condition =
  dc_type :: string
  dc_status :: string
  dc_reason :: string
  dc_message :: string

record deployment =
  d_metadata_namespace :: string
  d_metadata_name :: string
  d_spec_replicas :: "int option"
  d_status_available_replicas :: "int option"
  d_status_conditions :: "deployment_condition list option"

record apps_v1_api =
  list_namespaced_deployment :: "string \<Rightarrow> exn + deployment list"
  list_deployment_for_all_namespaces :: "exn + deployment list"

text \<open>The body of the loop over the deployments: the issues one deployment appends.\<close>

definition deployment_issues :: "deployment \<Rightarrow> issue list" where
  "deployment_issues d =
     (let ns = d_metadata_namespace d;
          name = d_metadata_name d;
          spec_replicas = or0 (d_spec_replicas d);
          status_replicas = or0 (d_status_available_replicas d);
          conds = or_nil (d_status_conditions d)
      in (if spec_replicas \<noteq> status_replicas
          then [\<lparr>severity = ''warning'',
                 title = ''Replica mismatch: '' @ ns @ ''/'' @ name,
                 detail = ''desired='' @ str_int spec_replicas @ '', available='' @ str_int status_replicas,
                 suggestion = ''Check recent rollout: kubectl rollout status deployment/{name} -n {ns}; inspect pods for crash/scheduling issues.''\<rparr>]
          else [])
         @ concat (map (\<lambda>c.
             if dc_type c = ''Progressing'' \<and> dc_status c = ''False''
             then [\<lparr>severity = ''warning'',
                    title = ''Deployment not progressing: '' @ ns @ ''/'' @ name,
                    detail = dc_reason c @ '': '' @ dc_message c,
                    suggestion = ''kubectl describe deployment -n {ns} {name}; check events and ReplicaSets''\<rparr>]
             else []) conds))"

definition list_deployments :: "apps_v1_api \<Rightarrow> string option \<Rightarrow> exn + deployment list" where
  "list_deployments apps_v1 namespace =
     (case namespace of
        Some ns \<Rightarrow> if truthy_str namespace then list_namespaced_deployment apps_v1 ns
                   else list_deployment_for_all_namespaces apps_v1
      | None \<Rightarrow> list_deployment_for_all_namespaces apps_v1)"

definition check_deployments :: "apps_v1_api \<Rightarrow> string option \<Rightarrow> exn + issue list" where
  "check_deployments apps_v1 namespace =
     (case list_deployments apps_v1 namespace of
        Inl (ApiException e) \<Rightarrow>
          Inr [\<lparr>severity = ''error'', title = ''Failed to list deployments'',
                detail = e, suggestion = ''Check RBAC and connectivity''\<rparr>]
      | Inl other \<Rightarrow> Inl other
      | Inr deps \<Rightarrow> Inr (concat (map deployment_issues deps)))"

text \<open>The ``Replica mismatch'' issues, told by their title.\<close>

definition is_replica_mismatch :: "issue \<Rightarrow> bool" where
  "is_replica_mismatch i = prefix ''Replica mismatch'' (title i)"

definition replica_mismatch_issue :: "deployment \<Rightarrow> issue" where
  "replica_mismatch_issue d =
     \<lparr>severity = ''warning'',
      title = ''Replica mismatch: '' @ d_metadata_namespace d @ ''/'' @ d_metadata_name d,
      detail = ''desired='' @ str_int (or0 (d_spec_replicas d))
               @ '', available='' @ str_int (or0 (d_status_available_replicas d)),
      suggestion = ''Check recent rollout: kubectl rollout status deployment/{name} -n {ns}; inspect pods for crash/scheduling issues.''\<rparr>"

text \<open>Two deployments for the concrete cases: desired 3 with available 3, desired 3 with available 1.\<close>

definition dep_3_3 :: deployment where
  "dep_3_3 = \<lparr>d_metadata_namespace = ''default'', d_metadata_name = ''web'',
              d_spec_replicas = Some 3, d_status_available_replicas = Some 3,
              d_status_conditions = None\<rparr>"

definition dep_3_1 :: deployment where
  "dep_3_1 = \<lparr>d_metadata_namespace = ''default'', d_metadata_name = ''api'',
              d_spec_replicas = Some 3, d_status_available_replicas = Some 1,
              d_status_conditions = Some [\<lparr>dc_type = ''Progressing'', dc_status = ''False'',
                 dc_reason = ''ProgressDeadlineExceeded'', dc_message = ''timed out''\<rparr>]\<rparr>"

definition apps_two :: apps_v1_api where
  "apps_two = \<lparr>list_namespaced_deployment = (\<lambda>ns. Inr [dep_3_1]),
               list_deployment_for_all_namespaces = Inr [dep_3_3, dep_3_1]\<rparr>"

subsection \<open>Nodes\<close>

record node_condition =
  nc_type :: string
  nc_status :: string
  nc_last_heartbeat_time :: string
  nc_last_transition_time :: string

record node =
  n_metadata_name :: string
  n_status_conditions :: "node_condition list option"
  n_spec_unschedulable :: "bool option"

text \<open>\<^verbatim>\<open>{c.type: c for c in conds}\<close>: a later condition of a type replaces an earlier one.\<close>

definition conditions_dict :: "node_condition list \<Rightarrow> (string \<rightharpoonup> node_condition)" where
  "conditions_dict conds = fold (\<lambda>c m. m(nc_type c \<mapsto> c)) conds Map.empty"

definition node_pressure_issues :: "string \<Rightarrow> (string \<rightharpoonup> node_condition) \<Rightarrow> string \<Rightarrow> issue list" where
  "node_pressure_issues name conditions t =
     (case conditions t of
        None \<Rightarrow> []
      | Some c \<Rightarrow>
          if nc_status c = ''True''
          then [\<lparr>severity = ''warning'',
                 title = ''Node pressure '' @ t @ '': '' @ name,
                 detail = t @ '' is True (lastTransition: '' @ nc_last_transition_time c @ '')'',
                 suggestion = ''Investigate resource usage on node, evictions, and taints.''\<rparr>]
          else [])"

text \<open>The body of the loop over the nodes.\<close>

definition node_issues :: "node \<Rightarrow> issue list" where
  "node_issues n =
     (let name = n_metadata_name n;
          conditions = conditions_dict (or_nil (n_status_conditions n));
          ready = conditions ''Ready''
      in (if (case ready of None \<Rightarrow> True | Some r \<Rightarrow> nc_status r \<noteq> ''True'')
          then (let last = (case ready of Some r \<Rightarrow> nc_last_heartbeat_time r | None \<Rightarrow> ''unknown'')
                in [\<lparr>severity = ''warning'',
                      title = ''Node NotReady: '' @ name,
                      detail = ''Ready='' @ (case ready of Some r \<Rightarrow> nc_status r | None \<Rightarrow> ''Unknown'')
                               @ '' (lastHeartbeat='' @ last @ '')'',
                      suggestion = ''Check node kubelet, disk pressure, network. Run: kubectl describe node {name} and check kubelet logs on the node.''\<rparr>])
          else [])
         @ (if n_spec_unschedulable n = Some True
            then [\<lparr>severity = ''info'',
                   title = ''Node Cordoned (unschedulable): '' @ name,
                   detail = ''Node.spec.unschedulable is true'',
                   suggestion = ''If maintenance finished, uncordon: kubectl uncordon '' @ name\<rparr>]
            else [])
         @ concat (map (node_pressure_issues name conditions)
                     [''DiskPressure'', ''MemoryPressure'', ''PIDPressure'']))"

subsection \<open>Pods\<close>

record container_state_waiting =
  w_reason :: "string option"
  w_message :: "string option"

record container_state_terminated =
  t_reason :: "string option"
  t_signal :: "int option"
  t_exit_code :: int
  t_finished_at :: string

record container_status =
  cs_name :: string
  cs_state_waiting :: "container_state_waiting option"
  cs_last_state_terminated :: "container_state_terminated option"
  cs_restart_count :: int

record pod =
  p_metadata_namespace :: string
  p_metadata_name :: string
  p_status_phase :: "string option"
  p_status_message :: "string option"
  p_status_container_statuses :: "container_status list option"

definition waiting_issues :: "string \<Rightarrow> string \<Rightarrow> string \<Rightarrow> container_state_waiting \<Rightarrow> issue list" where
  "waiting_issues ns name cname w =
     (let reason = w_reason w;
          detail = or_str (w_message w) ''''
      in if reason \<in> set [Some ''CrashLoopBackOff'', Some ''Error'']
         then [\<lparr>severity = ''warning'',
                title = ''Container CrashLoopBackOff/Error: '' @ ns @ ''/'' @ name @ '':'' @ cname,
                detail = ''Reason='' @ py_str reason @ ''. Message='' @ detail,
                suggestion = ''Inspect logs: kubectl logs -n {ns} {name} -c {cname} --previous'' @ [CHR 0x0A]
                  @ ''Common fixes: fix app exception, increase readinessTimeout, check env/config, use image with correct tag.''\<rparr>]
         else if reason \<in> set [Some ''ImagePullBackOff'', Some ''ErrImagePull'', Some ''RegistryUnavailable'']
         then [\<lparr>severity = ''warning'',
                title = ''Image pull problem: '' @ ns @ ''/'' @ name @ '':'' @ cname,
                detail = ''Reason='' @ py_str reason @ ''. Message='' @ detail,
                suggestion = ''Check image name/tag, registry secret, imagePullSecrets, network. Try docker pull locally or check registry auth.''\<rparr>]
         else if reason = Some ''CreateContainerConfigError''
         then [\<lparr>severity = ''warning'',
                title = ''Container config error: '' @ ns @ ''/'' @ name @ '':'' @ cname,
                detail = detail,
                suggestion = ''Likely bad command/args/env/volumeMounts. kubectl describe pod and check container spec and mounted volumes.''\<rparr>]
         else [])"

definition terminated_issues :: "string \<Rightarrow> string \<Rightarrow> string \<Rightarrow> container_state_terminated \<Rightarrow> issue list" where
  "terminated_issues ns name cname term =
     (if t_reason term = Some ''OOMKilled'' \<or> or0 (t_signal term) = 9
      then [\<lparr>severity = ''warning'',
             title = ''OOMKilled / terminated container: '' @ ns @ ''/'' @ name @ '':'' @ cname,
             detail = ''ExitCode='' @ str_int (t_exit_code term) @ '', reason='' @ py_str (t_reason term)
                      @ '', finish='' @ t_finished_at term,
             suggestion = ''Increase memory requests/limits, check for memory leaks, review recent changes, examine logs prior to termination.''\<rparr>]
      else [])"

definition restart_issues :: "string \<Rightarrow> string \<Rightarrow> string \<Rightarrow> int \<Rightarrow> issue list" where
  "restart_issues ns name cname restart_count =
     (if restart_count \<noteq> 0 \<and> restart_count > 5
      then [\<lparr>severity = ''warning'',
             title = ''High restart count: '' @ ns @ ''/'' @ name @ '':'' @ cname,
             detail = ''Restarts='' @ str_int restart_count,
             suggestion = ''Investigate initialization,CrashLoopBackOff; check livenessProbe too aggressive, check readiness probe vs startup probe.''\<rparr>]
      else [])"

text \<open>The body of the loop over a pod's container statuses: three independent tests.\<close>

definition container_issues :: "string \<Rightarrow> string \<Rightarrow> container_status \<Rightarrow> issue list" where
  "container_issues ns name cs =
     (let cname = cs_name cs
      in (case cs_state_waiting cs of None \<Rightarrow> [] | Some w \<Rightarrow> waiting_issues ns name cname w)
         @ (case cs_last_state_terminated cs of None \<Rightarrow> [] | Some term \<Rightarrow> terminated_issues ns name cname term)
         @ restart_issues ns name cname (cs_restart_count cs))"

text \<open>The body of the loop over the pods.\<close>

definition pod_issues :: "pod \<Rightarrow> issue list" where
  "pod_issues p =
     (let ns = p_metadata_namespace p;
          name = p_metadata_name p;
          phase = p_status_phase p
      in (if phase = Some ''Pending''
          then (let message = p_status_message p
                in [\<lparr>severity = ''warning'',
                      title = ''Pod Pending: '' @ ns @ ''/'' @ name,
                      detail = ''Phase=Pending. Reason/message: '' @ or_str message ''none'',
                      suggestion = ''kubectl describe pod -n {ns} {name} to see events; check PVCs, scheduling, node selectors, resource requests.''\<rparr>])
          else [])
         @ concat (map (container_issues ns name) (or_nil (p_status_container_statuses p))))"

subsection \<open>Persistent volume claims\<close>

record pvc =
  pvc_metadata_namespace :: string
  pvc_metadata_name :: string
  pvc_status_phase :: "string option"

definition pvc_issues :: "pvc \<Rightarrow> issue list" where
  "pvc_issues c =
     (let ns = pvc_metadata_namespace c;
          name = pvc_metadata_name c;
          phase = pvc_status_phase c
      in if phase \<noteq> Some ''Bound''
         then [\<lparr>severity = ''warning'',
                title = ''PVC not Bound: '' @ ns @ ''/'' @ name,
                detail = ''phase='' @ py_str phase,
                suggestion = ''Check StorageClass, PV availability, and events: kubectl describe pvc -n {ns} {name}''\<rparr>]
         else [])"

subsection \<open>Events\<close>

text \<open>
  A timestamp attribute is \<^verbatim>\<open>None\<close> or a timezone-aware \<^verbatim>\<open>datetime\<close>, which is
  always true in a condition and whose \<^verbatim>\<open>timestamp()\<close> does not raise: it is held as
  that POSIX timestamp, an exact rational number of seconds.
\<close>

record event =
  e_last_timestamp :: "rat option"
  e_event_time :: "rat option"
  e_first_timestamp :: "rat option"
  e_type :: "string option"
  e_involved_object_kind :: string
  e_involved_object_name :: string
  e_reason :: string
  e_message :: string

text \<open>\<^verbatim>\<open>a or b\<close> on two optional datetimes.\<close>

fun or_time :: "rat option \<Rightarrow> rat option \<Rightarrow> rat option" where
  "or_time (Some a) b = Some a"
| "or_time None b = b"

definition event_issue :: "event \<Rightarrow> issue" where
  "event_issue e =
     \<lparr>severity = ''warning'',
      title = ''Event: '' @ e_involved_object_kind e @ '' '' @ e_involved_object_name e @ '' - '' @ e_reason e,
      detail = e_message e,
      suggestion = ''Investigate the resource and reason; kubectl describe on the involved object.''\<rparr>"

text \<open>The body of the loop over the events, with its three \<^verbatim>\<open>continue\<close> exits.\<close>

definition event_issues :: "rat \<Rightarrow> event \<Rightarrow> issue list" where
  "event_issues cutoff e =
     (let t = or_time (or_time (e_last_timestamp e) (e_event_time e)) (e_first_timestamp e)
      in case t of
           None \<Rightarrow> []
         | Some ts \<Rightarrow>
             if ts < cutoff then []
             else if e_type e = Some ''Warning'' then [event_issue e]
             else [])"

subsection \<open>The cluster client and the five classifiers\<close>

text \<open>
  Each listing call is made at most once in a run, so the client is the record of what
  each call returns: the items, or the exception it raises.
\<close>

record core_v1_api =
  list_node :: "exn + node list"
  list_namespaced_pod :: "string \<Rightarrow> exn + pod list"
  list_pod_for_all_namespaces :: "exn + pod list"
  list_namespaced_persistent_volume_claim :: "string \<Rightarrow> exn + pvc list"
  list_persistent_volume_claim_for_all_namespaces :: "exn + pvc list"
  list_namespaced_event :: "string \<Rightarrow> exn + event list"
  list_event_for_all_namespaces :: "exn + event list"

definition check_nodes :: "core_v1_api \<Rightarrow> exn + issue list" where
  "check_nodes v1 =
     (case list_node v1 of
        Inl (ApiException e) \<Rightarrow>
          Inr [\<lparr>severity = ''error'', title = ''Failed to list nodes'',
                detail = e, suggestion = ''Check RBAC and connectivity''\<rparr>]
      | Inl other \<Rightarrow> Inl other
      | Inr nodes \<Rightarrow> Inr (concat (map node_issues nodes)))"

definition list_pods :: "core_v1_api \<Rightarrow> string option \<Rightarrow> exn + pod list" where
  "list_pods v1 namespace =
     (case namespace of
        Some ns \<Rightarrow> if truthy_str namespace then list_namespaced_pod v1 ns
                   else list_pod_for_all_namespaces v1
      | None \<Rightarrow> list_pod_for_all_namespaces v1)"

text \<open>\<open>analyze_pods\<close> has no \<^verbatim>\<open>try\<close> around its listing call: an exception leaves the function.\<close>

definition analyze_pods :: "core_v1_api \<Rightarrow> string option \<Rightarrow> exn + issue list" where
  "analyze_pods v1 namespace =
     (case list_pods v1 namespace of
        Inl e \<Rightarrow> Inl e
      | Inr pods \<Rightarrow> Inr (concat (map pod_issues pods)))"

definition list_pvcs :: "core_v1_api \<Rightarrow> string option \<Rightarrow> exn + pvc list" where
  "list_pvcs v1 namespace =
     (case namespace of
        Some ns \<Rightarrow> if truthy_str namespace then list_namespaced_persistent_volume_claim v1 ns
                   else list_persistent_volume_claim_for_all_namespaces v1
      | None \<Rightarrow> list_persistent_volume_claim_for_all_namespaces v1)"

definition check_pvcs :: "core_v1_api \<Rightarrow> string option \<Rightarrow> exn + issue list" where
  "check_pvcs v1 namespace =
     (case list_pvcs v1 namespace of
        Inl (ApiException e) \<Rightarrow>
          Inr [\<lparr>severity = ''error'', title = ''Failed to list PVCs'',
                detail = e, suggestion = ''Check RBAC and connectivity''\<rparr>]
      | Inl other \<Rightarrow> Inl other
      | Inr pvcs \<Rightarrow> Inr (concat (map pvc_issues pvcs)))"

definition list_events :: "core_v1_api \<Rightarrow> string option \<Rightarrow> exn + event list" where
  "list_events v1 namespace =
     (case namespace of
        Some ns \<Rightarrow> if truthy_str namespace then list_namespaced_event v1 ns
                   else list_event_for_all_namespaces v1
      | None \<Rightarrow> list_event_for_all_namespaces v1)"

text \<open>
  \<open>now\<close> is the value of \<^verbatim>\<open>datetime.now(timezone.utc).timestamp()\<close>, read after the
  listing call returned.
\<close>

definition collect_events :: "core_v1_api \<Rightarrow> rat \<Rightarrow> int \<Rightarrow> string option \<Rightarrow> exn + issue list" where
  "collect_events v1 now since_minutes namespace =
     (case list_events v1 namespace of
        Inl (ApiException e) \<Rightarrow>
          Inr [\<lparr>severity = ''error'', title = ''Failed to list events'',
                detail = e, suggestion = ''Check RBAC and connectivity''\<rparr>]
      | Inl other \<Rightarrow> Inl other
      | Inr events \<Rightarrow>
          (let cutoff = now - of_int (since_minutes * 60)
           in Inr (concat (map (event_issues cutoff) events))))"

subsection \<open>Notions the properties are stated with\<close>

text \<open>The node's \<^verbatim>\<open>conditions.get("Ready")\<close>, and the test the NotReady rule makes on it.\<close>

definition ready_condition :: "node \<Rightarrow> node_condition option" where
  "ready_condition n = conditions_dict (or_nil (n_status_conditions n)) ''Ready''"

definition node_not_ready :: "node \<Rightarrow> bool" where
  "node_not_ready n = (case ready_condition n of None \<Rightarrow> True | Some r \<Rightarrow> nc_status r \<noteq> ''True'')"

definition not_ready_issue :: "node \<Rightarrow> issue" where
  "not_ready_issue n =
     \<lparr>severity = ''warning'',
      title = ''Node NotReady: '' @ n_metadata_name n,
      detail = ''Ready='' @ (case ready_condition n of Some r \<Rightarrow> nc_status r | None \<Rightarrow> ''Unknown'')
               @ '' (lastHeartbeat=''
               @ (case ready_condition n of Some r \<Rightarrow> nc_last_heartbeat_time r | None \<Rightarrow> ''unknown'')
               @ '')'',
      suggestion = ''Check node kubelet, disk pressure, network. Run: kubectl describe node {name} and check kubelet logs on the node.''\<rparr>"

text \<open>
  Two readings of ``a warning whose title contains NotReady'': by the title's fixed
  beginning, and by the word occurring anywhere in the title.
\<close>

definition is_not_ready_issue :: "issue \<Rightarrow> bool" where
  "is_not_ready_issue i = (severity i = ''warning'' \<and> prefix ''Node NotReady: '' (title i))"

definition mentions_not_ready :: "issue \<Rightarrow> bool" where
  "mentions_not_ready i = (severity i = ''warning'' \<and> str_contains ''NotReady'' (title i))"

text \<open>The timestamp the event rule uses, in the words of the specification.\<close>

definition chosen_timestamp :: "event \<Rightarrow> rat option" where
  "chosen_timestamp e =
     (case e_last_timestamp e of
        Some t \<Rightarrow> Some t
      | None \<Rightarrow> (case e_event_time e of Some t \<Rightarrow> Some t | None \<Rightarrow> e_first_timestamp e))"

definition promoted :: "rat \<Rightarrow> event \<Rightarrow> bool" where
  "promoted cutoff e =
     (case chosen_timestamp e of
        None \<Rightarrow> False
      | Some ts \<Rightarrow> \<not> ts < cutoff \<and> e_type e = Some ''Warning'')"

subsection \<open>A small cluster for the concrete cases\<close>

definition node_a :: node where
  "node_a = \<lparr>n_metadata_name = ''node-a'',
             n_status_conditions = Some
               [\<lparr>nc_type = ''Ready'', nc_status = ''True'',
                 nc_last_heartbeat_time = ''2024-05-01 10:00:00+00:00'',
                 nc_last_transition_time = ''2024-04-01 08:00:00+00:00''\<rparr>,
                \<lparr>nc_type = ''DiskPressure'', nc_status = ''True'',
                 nc_last_heartbeat_time = ''2024-05-01 10:00:00+00:00'',
                 nc_last_transition_time = ''2024-05-01 09:30:00+00:00''\<rparr>],
             n_spec_unschedulable = Some True\<rparr>"

definition node_b :: node where
  "node_b = \<lparr>n_metadata_name = ''node-b'',
             n_status_conditions = Some
               [\<lparr>nc_type = ''Ready'', nc_status = ''Unknown'',
                 nc_last_heartbeat_time = ''2024-05-01 09:00:00+00:00'',
                 nc_last_transition_time = ''2024-05-01 09:05:00+00:00''\<rparr>],
             n_spec_unschedulable = None\<rparr>"

definition node_c :: node where
  "node_c = \<lparr>n_metadata_name = ''node-c'', n_status_conditions = None,
             n_spec_unschedulable = Some False\<rparr>"

definition crash_container :: container_status where
  "crash_container =
     \<lparr>cs_name = ''main'',
      cs_state_waiting = Some \<lparr>w_reason = Some ''CrashLoopBackOff'', w_message = Some ''back-off 5m0s''\<rparr>,
      cs_last_state_terminated = Some \<lparr>t_reason = Some ''Error'', t_signal = None, t_exit_code = 1,
         t_finished_at = ''2024-05-01 09:59:00+00:00''\<rparr>,
      cs_restart_count = 7\<rparr>"

definition crash_pod :: pod where
  "crash_pod = \<lparr>p_metadata_namespace = ''default'', p_metadata_name = ''app'',
                p_status_phase = Some ''Running'', p_status_message = None,
                p_status_container_statuses = Some [crash_container]\<rparr>"

definition now_ex :: rat where
  "now_ex = 1714557600"

definition ev_warning_30 :: event where
  "ev_warning_30 = \<lparr>e_last_timestamp = Some (now_ex - 1800), e_event_time = None,
     e_first_timestamp = Some (now_ex - 7200), e_type = Some ''Warning'',
     e_involved_object_kind = ''Pod'', e_involved_object_name = ''app'',
     e_reason = ''BackOff'', e_message = ''Back-off restarting failed container''\<rparr>"

definition ev_warning_90 :: event where
  "ev_warning_90 = \<lparr>e_last_timestamp = None, e_event_time = Some (now_ex - 5400),
     e_first_timestamp = Some (now_ex - 60), e_type = Some ''Warning'',
     e_involved_object_kind = ''Pod'', e_involved_object_name = ''db'',
     e_reason = ''Unhealthy'', e_message = ''Readiness probe failed''\<rparr>"

definition ev_normal_5 :: event where
  "ev_normal_5 = \<lparr>e_last_timestamp = Some (now_ex - 300), e_event_time = None,
     e_first_timestamp = None, e_type = Some ''Normal'',
     e_involved_object_kind = ''Pod'', e_involved_object_name = ''app'',
     e_reason = ''Pulled'', e_message = ''Image pulled''\<rparr>"

definition ev_untimed :: event where
  "ev_untimed = \<lparr>e_last_timestamp = None, e_event_time = None,
     e_first_timestamp = None, e_type = Some ''Warning'',
     e_involved_object_kind = ''Node'', e_involved_object_name = ''node-b'',
     e_reason = ''NodeNotReady'', e_message = ''Node is not ready''\<rparr>"

definition v1_small :: core_v1_api where
  "v1_small =
     \<lparr>list_node = Inr [node_a, node_b, node_c],
      list_namespaced_pod = (\<lambda>ns. Inr [crash_pod]),
      list_pod_for_all_namespaces = Inr [crash_pod],
      list_namespaced_persistent_volume_claim = (\<lambda>ns. Inr []),
      list_persistent_volume_claim_for_all_namespaces = Inr [],
      list_namespaced_event = (\<lambda>ns. Inr [ev_warning_30, ev_warning_90, ev_normal_5, ev_untimed]),
      list_event_for_all_namespaces = Inr [ev_warning_30, ev_warning_90, ev_normal_5, ev_untimed]\<rparr>"

text \<open>A cluster whose every listing call is refused.\<close>

definition v1_forbidden :: core_v1_api where
  "v1_forbidden =
     \<lparr>list_node = Inl (ApiException ''(403) Reason: Forbidden''),
      list_namespaced_pod = (\<lambda>ns. Inl (ApiException ''(403) Reason: Forbidden'')),
      list_pod_for_all_namespaces = Inl (ApiException ''(403) Reason: Forbidden''),
      list_namespaced_persistent_volume_claim = (\<lambda>ns. Inl (ApiException ''(403) Reason: Forbidden'')),
      list_persistent_volume_claim_for_all_namespaces = Inl (ApiException ''(403) Reason: Forbidden''),
      list_namespaced_event = (\<lambda>ns. Inl (ApiException ''(403) Reason: Forbidden'')),
      list_event_for_all_namespaces = Inl (ApiException ''(403) Reason: Forbidden'')\<rparr>"

definition apps_forbidden :: apps_v1_api where
  "apps_forbidden =
     \<lparr>list_namespaced_deployment = (\<lambda>ns. Inl (ApiException ''(403) Reason: Forbidden'')),
      list_deployment_for_all_namespaces = Inl (ApiException ''(403) Reason: Forbidden'')\<rparr>"

subsection \<open>What a run does to the outside: printed lines and external calls\<close>

text \<open>
  The state threaded through the driver: the outside world \<open>'w\<close>, which the external
  calls read and may change, and the trace of what the run has done so far. A
  \<open>Print\<close> holds the text of one \<^verbatim>\<open>print\<close> call (several arguments joined by a
  space); \<open>Which\<close>, \<open>Run\<close> and \<open>Load\<close> record \<^verbatim>\<open>shutil.which\<close>, \<^verbatim>\<open>subprocess.run\<close>
  with its command, and the opening and parsing of a manifest file.
\<close>

datatype action =
    Print string
  | Which string
  | Run "string list"
  | Load string

record 'w st =
  st_world :: 'w
  st_trace :: "action list"

definition py_print :: "string \<Rightarrow> 'w st \<Rightarrow> 'w st" where
  "py_print s st = st\<lparr>st_trace := st_trace st @ [Print s]\<rparr>"

subsection \<open>Aggregation and report\<close>

definition sev_order :: "string \<rightharpoonup> int" where
  "sev_order = [''error'' \<mapsto> 0, ''warning'' \<mapsto> 1, ''info'' \<mapsto> 2]"

text \<open>\<^verbatim>\<open>d.get(k, default)\<close>.\<close>

definition dict_get :: "('k \<rightharpoonup> 'v) \<Rightarrow> 'k \<Rightarrow> 'v \<Rightarrow> 'v" where
  "dict_get d k dflt = (case d k of Some v \<Rightarrow> v | None \<Rightarrow> dflt)"

text \<open>The sort key, a Python tuple: tuples and strings compare lexicographically.\<close>

definition issue_key :: "issue \<Rightarrow> int \<times> string" where
  "issue_key x = (dict_get sev_order (severity x) 1, title x)"

text \<open>
  \<^verbatim>\<open>sorted(issues, key=...)\<close>: Python's \<^verbatim>\<open>sorted\<close> is a stable ascending sort, here
  the stable insertion sort of the HOL library.
\<close>

definition issues_sorted :: "issue list \<Rightarrow> issue list" where
  "issues_sorted issues = sort_key issue_key issues"

text \<open>\<^verbatim>\<open>s.upper()\<close> on a string of ASCII characters.\<close>

definition upper_char :: "char \<Rightarrow> char" where
  "upper_char c = (if CHR ''a'' \<le> c \<and> c \<le> CHR ''z'' then char_of (of_char c - (32::nat)) else c)"

definition py_upper :: "string \<Rightarrow> string" where
  "py_upper s = map upper_char s"

definition render_issue :: "nat \<times> issue \<Rightarrow> string list" where
  "render_issue p =
     (case p of (i, it) \<Rightarrow>
       [[CHR 0x0A] @ ''['' @ str_nat i @ ''] '' @ py_upper (severity it) @ '' - '' @ title it,
        ''    Detail: '' @ '' '' @ detail it,
        ''    Suggestion:'' @ '' '' @ suggestion it])"

text \<open>The lines \<open>pretty_print_issues\<close> prints; \<^verbatim>\<open>enumerate(xs, 1)\<close> numbers from 1.\<close>

definition pretty_print_issues :: "issue list \<Rightarrow> string list" where
  "pretty_print_issues issues =
     (if issues = []
      then [[CHR 0x0A] @ ''No issues detected. Cluster looks healthy (based on checks performed).'']
      else [[CHR 0x0A] @ ''Detected issues & suggested fixes:'']
           @ concat (map render_issue
               (zip [1 ..< Suc (length (issues_sorted issues))] (issues_sorted issues))))"

subsection \<open>Scanning the cluster\<close>

text \<open>
  What the Kubernetes library gives a run: the outcome of the two ways of loading the
  configuration, the two API clients, and the clock read by \<open>collect_events\<close>.
\<close>

record cluster =
  cl_load_kube_config :: "exn + unit"
  cl_load_incluster_config :: "exn + unit"
  cl_core_v1 :: core_v1_api
  cl_apps_v1 :: apps_v1_api
  cl_now :: rat

definition load_k8s_config :: "cluster \<Rightarrow> 'w st \<Rightarrow> (exn + unit) \<times> 'w st" where
  "load_k8s_config cl st =
     (case cl_load_kube_config cl of
        Inr u \<Rightarrow> (Inr (), py_print ''[k8s] Loaded kubeconfig.'' st)
      | Inl e0 \<Rightarrow>
          if \<not> is_Exception e0 then (Inl e0, st)
          else (case cl_load_incluster_config cl of
                  Inr u \<Rightarrow> (Inr (), py_print ''[k8s] Loaded in-cluster config.'' st)
                | Inl e \<Rightarrow>
                    if \<not> is_Exception e then (Inl e, st)
                    else (Inl (SystemExit 1),
                          py_print (''[k8s] ERROR loading Kubernetes config:'' @ '' '' @ str_exn e) st)))"

definition scan_cluster :: "cluster \<Rightarrow> string option \<Rightarrow> 'w st \<Rightarrow> (exn + issue list) \<times> 'w st" where
  "scan_cluster cl namespace st =
     (case load_k8s_config cl st of
        (Inl e, st0) \<Rightarrow> (Inl e, st0)
      | (Inr u, st0) \<Rightarrow>
     (let v1 = cl_core_v1 cl;
          apps_v1 = cl_apps_v1 cl;
          st1 = py_print ''[scan] Checking nodes...'' st0
      in case check_nodes v1 of Inl e \<Rightarrow> (Inl e, st1) | Inr nodes_issues \<Rightarrow>
     (let st2 = py_print ''[scan] Checking pods...'' st1
      in case analyze_pods v1 namespace of Inl e \<Rightarrow> (Inl e, st2) | Inr pods_issues \<Rightarrow>
     (let st3 = py_print ''[scan] Checking deployments...'' st2
      in case check_deployments apps_v1 namespace of Inl e \<Rightarrow> (Inl e, st3) | Inr deps_issues \<Rightarrow>
     (let st4 = py_print ''[scan] Checking PVCs...'' st3
      in case check_pvcs v1 namespace of Inl e \<Rightarrow> (Inl e, st4) | Inr pvcs_issues \<Rightarrow>
     (let st5 = py_print ''[scan] Collecting warning events (last 60m)...'' st4
      in case collect_events v1 (cl_now cl) 60 namespace of Inl e \<Rightarrow> (Inl e, st5) | Inr ev_issues \<Rightarrow>
           (Inr (nodes_issues @ pods_issues @ deps_issues @ pvcs_issues @ ev_issues), st5)))))))"

definition cluster_small :: cluster where
  "cluster_small = \<lparr>cl_load_kube_config = Inr (), cl_load_incluster_config = Inr (),
     cl_core_v1 = v1_small, cl_apps_v1 = apps_two, cl_now = now_ex\<rparr>"

text \<open>Five issues for the concrete case of the ordering; the last two share their sort key.\<close>

definition unsorted_issues :: "issue list" where
  "unsorted_issues =
     [\<lparr>severity = ''info'', title = ''Node Cordoned (unschedulable): node-a'', detail = ''d1'', suggestion = ''s1''\<rparr>,
      \<lparr>severity = ''warning'', title = ''Replica mismatch: default/api'', detail = ''d2'', suggestion = ''s2''\<rparr>,
      \<lparr>severity = ''error'', title = ''Failed to list PVCs'', detail = ''d3'', suggestion = ''s3''\<rparr>,
      \<lparr>severity = ''warning'', title = ''Event: Pod app - BackOff'', detail = ''first'', suggestion = ''s4''\<rparr>,
      \<lparr>severity = ''warning'', title = ''Event: Pod app - BackOff'', detail = ''second'', suggestion = ''s5''\<rparr>]"

subsection \<open>Manifest validation\<close>

text \<open>
  What \<^verbatim>\<open>yaml.safe_load_all\<close> builds: \<^verbatim>\<open>None\<close>, booleans, integers, strings, lists,
  dicts (the list of their items, keys distinct), and \<open>YScalar\<close> for a float, date or
  datetime, held by the name of its Python type. Sets and binary scalars are left out.
\<close>

datatype yaml =
    YNull
  | YBool bool
  | YInt int
  | YStr string
  | YScalar string
  | YSeq "yaml list"
  | YMap "(yaml \<times> yaml) list"

fun type_name :: "yaml \<Rightarrow> string" where
  "type_name YNull = ''NoneType''"
| "type_name (YBool b) = ''bool''"
| "type_name (YInt i) = ''int''"
| "type_name (YStr s) = ''str''"
| "type_name (YScalar t) = t"
| "type_name (YSeq xs) = ''list''"
| "type_name (YMap m) = ''dict''"

text \<open>
  \<^verbatim>\<open>s in v\<close> for a string \<open>s\<close>: a key test on a dict, an element test on a list, a
  substring test on a string, and a \<^verbatim>\<open>TypeError\<close> on anything else.
\<close>

fun py_in :: "string \<Rightarrow> yaml \<Rightarrow> exn + bool" where
  "py_in s (YMap m) = Inr (YStr s \<in> set (map fst m))"
| "py_in s (YSeq xs) = Inr (YStr s \<in> set xs)"
| "py_in s (YStr t) = Inr (str_contains s t)"
| "py_in s v = Inl (TypeError (''argument of type '' @ [CHR 0x27] @ type_name v @ [CHR 0x27] @ '' is not iterable''))"

text \<open>The body of the loop over the documents: the problems document \<open>i\<close> appends.\<close>

definition doc_problems :: "nat \<Rightarrow> yaml \<Rightarrow> exn + string list" where
  "doc_problems i d =
     (case d of
        YMap m \<Rightarrow>
          (let kind_problem =
                 (if YStr ''kind'' \<notin> set (map fst m)
                  then [''Document '' @ str_nat i @ '' missing '' @ [CHR 0x27] @ ''kind'' @ [CHR 0x27]]
                  else [])
           in case map_of m (YStr ''metadata'') of
                None \<Rightarrow> Inr (kind_problem @ [''Document '' @ str_nat i @ '' missing metadata.name''])
              | Some md \<Rightarrow>
                  (case py_in ''name'' md of
                     Inl e \<Rightarrow> Inl e
                   | Inr has_name \<Rightarrow>
                       Inr (kind_problem @
                            (if \<not> has_name then [''Document '' @ str_nat i @ '' missing metadata.name'']
                             else []))))
      | _ \<Rightarrow> Inr [''Document '' @ str_nat i @ '' is not a mapping''])"

fun check_docs :: "nat \<Rightarrow> yaml list \<Rightarrow> exn + string list" where
  "check_docs i [] = Inr []"
| "check_docs i (d # ds) =
     (case doc_problems i d of
        Inl e \<Rightarrow> Inl e
      | Inr ps \<Rightarrow> (case check_docs (Suc i) ds of Inl e \<Rightarrow> Inl e | Inr qs \<Rightarrow> Inr (ps @ qs)))"

text \<open>
  The operating system as the run uses it. Each call reads the world and may change it,
  so two calls with the same arguments can answer differently.
\<close>

record completed_process =
  returncode :: int
  stdout :: string
  stderr :: string

record 'w os =
  os_which :: "string \<Rightarrow> 'w \<Rightarrow> string option \<times> 'w"
  os_run :: "string list \<Rightarrow> 'w \<Rightarrow> (exn + completed_process) \<times> 'w"
  os_load_all :: "string \<Rightarrow> 'w \<Rightarrow> (exn + yaml list) \<times> 'w"

definition kubectl_available :: "'w os \<Rightarrow> 'w st \<Rightarrow> bool \<times> 'w st" where
  "kubectl_available os st =
     (case os_which os ''kubectl'' (st_world st) of
        (found, w) \<Rightarrow> (found \<noteq> None, \<lparr>st_world = w, st_trace = st_trace st @ [Which ''kubectl'']\<rparr>))"

definition namespace_args :: "string option \<Rightarrow> string list" where
  "namespace_args namespace =
     (case namespace of
        Some ns \<Rightarrow> if truthy_str namespace then [''-n'', ns] else []
      | None \<Rightarrow> [])"

definition dry_run_cmd :: "string \<Rightarrow> string option \<Rightarrow> string list" where
  "dry_run_cmd manifest_path namespace =
     [''kubectl'', ''apply'', ''--dry-run=server'', ''-f'', manifest_path] @ namespace_args namespace"

definition apply_cmd :: "string \<Rightarrow> string option \<Rightarrow> string list" where
  "apply_cmd manifest namespace =
     [''kubectl'', ''apply'', ''-f'', manifest] @ namespace_args namespace"

definition kubectl_dry_run :: "'w os \<Rightarrow> string \<Rightarrow> string option \<Rightarrow> 'w st \<Rightarrow> (exn + bool \<times> string) \<times> 'w st" where
  "kubectl_dry_run os manifest_path namespace st =
     (let cmd = dry_run_cmd manifest_path namespace
      in case os_run os cmd (st_world st) of
           (r, w) \<Rightarrow>
             (let st' = \<lparr>st_world = w, st_trace = st_trace st @ [Run cmd]\<rparr>
              in case r of
                   Inl e \<Rightarrow>
                     if is_Exception e then (Inr (False, ''Failed to run kubectl: '' @ str_exn e), st')
                     else (Inl e, st')
                 | Inr proc \<Rightarrow> (Inr (returncode proc = 0, stdout proc @ stderr proc), st')))"

definition simple_local_manifest_check :: "'w os \<Rightarrow> string \<Rightarrow> 'w st \<Rightarrow> (exn + bool \<times> string) \<times> 'w st" where
  "simple_local_manifest_check os manifest_path st =
     (case os_load_all os manifest_path (st_world st) of
        (r, w) \<Rightarrow>
          (let st' = \<lparr>st_world = w, st_trace = st_trace st @ [Load manifest_path]\<rparr>
           in case r of
                Inl e \<Rightarrow>
                  if is_Exception e then (Inr (False, ''YAML parse error: '' @ str_exn e), st')
                  else (Inl e, st')
              | Inr docs \<Rightarrow>
                  (case check_docs 0 docs of
                     Inl e \<Rightarrow> (Inl e, st')
                   | Inr problems \<Rightarrow>
                       (let ok = (length problems = 0)
                        in (Inr (ok, if problems \<noteq> [] then py_join [CHR 0x0A] problems
                                     else ''Basic YAML checks passed.''), st')))))"

definition validate_manifest :: "'w os \<Rightarrow> string \<Rightarrow> string option \<Rightarrow> 'w st \<Rightarrow> (exn + bool \<times> string) \<times> 'w st" where
  "validate_manifest os manifest namespace st =
     (let st0 = py_print (''[manifest] Validating manifest: '' @ manifest) st
      in case kubectl_available os st0 of
           (avail, st1) \<Rightarrow>
             if avail
             then (case kubectl_dry_run os manifest namespace st1 of
                     (Inl e, st2) \<Rightarrow> (Inl e, st2)
                   | (Inr (ok, out), st2) \<Rightarrow>
                       (let st3 = (if ok
                                   then py_print ''[manifest] kubectl server-side dry-run succeeded. Manifest should be accepted by API server.'' st2
                                   else py_print ''[manifest] kubectl dry-run reported issues:'' st2)
                        in (Inr (ok, out), py_print out st3)))
             else (case simple_local_manifest_check os manifest st1 of
                     (Inl e, st2) \<Rightarrow> (Inl e, st2)
                   | (Inr (ok, out), st2) \<Rightarrow>
                       (Inr (ok, out),
                        py_print out (py_print ''[manifest] Kubectl not found; performed basic YAML checks:'' st2))))"

text \<open>\<open>apply_manifest\<close> has no \<^verbatim>\<open>try\<close> around \<^verbatim>\<open>subprocess.run\<close>.\<close>

definition apply_manifest :: "'w os \<Rightarrow> string \<Rightarrow> string option \<Rightarrow> 'w st \<Rightarrow> (exn + bool \<times> string) \<times> 'w st" where
  "apply_manifest os manifest namespace st =
     (case kubectl_available os st of
        (avail, st0) \<Rightarrow>
          if \<not> avail
          then (Inr (False, ''kubectl not found''),
                py_print ''[apply] kubectl is required to apply manifests from this script.'' st0)
          else (let cmd = apply_cmd manifest namespace;
                    st1 = py_print (''[apply] Running: '' @ py_join '' '' cmd) st0
                in case os_run os cmd (st_world st1) of
                     (r, w) \<Rightarrow>
                       (let st2 = \<lparr>st_world = w, st_trace = st_trace st1 @ [Run cmd]\<rparr>
                        in case r of
                             Inl e \<Rightarrow> (Inl e, st2)
                           | Inr proc \<Rightarrow> (Inr (returncode proc = 0, stdout proc @ stderr proc), st2))))"

subsection \<open>The driver\<close>

record args =
  a_namespace :: "string option"
  a_manifest :: "string option"
  a_apply :: bool
  a_no_scan :: bool

definition py_prints :: "string list \<Rightarrow> 'w st \<Rightarrow> 'w st" where
  "py_prints ls st = st\<lparr>st_trace := st_trace st @ map Print ls\<rparr>"

text \<open>\<open>main\<close>, lines 374 to 378: the scan and its report.\<close>

definition main_scan :: "cluster \<Rightarrow> args \<Rightarrow> 'w st \<Rightarrow> (exn + unit) \<times> 'w st" where
  "main_scan cl args st =
     (if \<not> a_no_scan args
      then (case scan_cluster cl (a_namespace args) (py_print ''[main] Scanning cluster...'' st) of
              (Inl e, st1) \<Rightarrow> (Inl e, st1)
            | (Inr issues, st1) \<Rightarrow> (Inr (), py_prints (pretty_print_issues issues) st1))
      else (Inr (), st))"

text \<open>Lines 382 to 388: what is printed after the first validation.\<close>

definition report_validation :: "bool \<Rightarrow> 'w st \<Rightarrow> 'w st" where
  "report_validation ok st =
     (if \<not> ok
      then py_prints
             [[CHR 0x0A] @ ''[main] Manifest validation failed. Suggested actions:'',
              ''  - Fix errors reported by kubectl or YAML checks.'',
              ''  - If ImagePull errors, check image and registry credentials.'',
              ''  - If RBAC/CRD errors, ensure cluster has required CRDs and your user has permissions.''] st
      else py_print ([CHR 0x0A] @ ''[main] Manifest validated OK by server-side dry-run (or basic checks).'') st)"

text \<open>Lines 390 to 402: the second validation and the apply it gates.\<close>

definition main_apply :: "'w os \<Rightarrow> string \<Rightarrow> string option \<Rightarrow> 'w st \<Rightarrow> (exn + unit) \<times> 'w st" where
  "main_apply os manifest namespace st =
     (let st0 = py_print ([CHR 0x0A] @ ''[main] User requested apply; performing server-side dry-run before apply once more...'') st
      in case validate_manifest os manifest namespace st0 of
           (Inl e, st1) \<Rightarrow> (Inl e, st1)
         | (Inr (ok2, out2), st1) \<Rightarrow>
             if \<not> ok2
             then (Inr (), py_print ''[main] Dry-run failed; NOT applying. Fix manifest first.'' st1)
             else (case apply_manifest os manifest namespace
                          (py_print ''[main] Dry-run succeeded. Proceeding to apply (kubectl apply)...'' st1) of
                     (Inl e, st2) \<Rightarrow> (Inl e, st2)
                   | (Inr (ok_apply, apply_out), st2) \<Rightarrow>
                       (let st3 = py_print apply_out st2
                        in (Inr (),
                            if \<not> ok_apply
                            then py_print ''[main] Apply failed; inspect the error output above.'' st3
                            else py_print ''[main] Apply succeeded (kubectl reported success).'' st3))))"

definition main :: "'w os \<Rightarrow> cluster \<Rightarrow> args \<Rightarrow> 'w st \<Rightarrow> (exn + unit) \<times> 'w st" where
  "main os cl args st =
     (let namespace = a_namespace args
      in case main_scan cl args st of
           (Inl e, st1) \<Rightarrow> (Inl e, st1)
         | (Inr u, st1) \<Rightarrow>
             (case a_manifest args of
                Some manifest \<Rightarrow>
                  if truthy_str (a_manifest args)
                  then (case validate_manifest os manifest namespace st1 of
                          (Inl e, st2) \<Rightarrow> (Inl e, st2)
                        | (Inr (ok, out), st2) \<Rightarrow>
                            (let st3 = report_validation ok st2
                             in if a_apply args then main_apply os manifest namespace st3
                                else (Inr (), st3)))
                  else (Inr (), py_print ([CHR 0x0A] @ ''[main] No manifest provided. Scan-only run complete.'') st1)
              | None \<Rightarrow>
                  (Inr (), py_print ([CHR 0x0A] @ ''[main] No manifest provided. Scan-only run complete.'') st1)))"

text \<open>A run of \<^verbatim>\<open>subprocess.run\<close> that is not a server-side dry-run of \<^verbatim>\<open>kubectl apply\<close>.\<close>

fun mutating :: "action \<Rightarrow> bool" where
  "mutating (Run cmd) = (take 3 cmd \<noteq> [''kubectl'', ''apply'', ''--dry-run=server''])"
| "mutating a = False"

subsection \<open>The structural check in the words of the specification\<close>

text \<open>
  A document ``contains \<^verbatim>\<open>metadata.name\<close>'' when it is a mapping whose \<^verbatim>\<open>metadata\<close> is
  a mapping with a key \<^verbatim>\<open>name\<close>; \<open>expected_problems\<close> is one problem string for each
  requirement the document misses.
\<close>

definition has_metadata_name :: "yaml \<Rightarrow> bool" where
  "has_metadata_name d =
     (case d of
        YMap m \<Rightarrow> (case map_of m (YStr ''metadata'') of
                     Some (YMap md) \<Rightarrow> YStr ''name'' \<in> set (map fst md)
                   | _ \<Rightarrow> False)
      | _ \<Rightarrow> False)"

definition expected_problems :: "nat \<Rightarrow> yaml \<Rightarrow> string list" where
  "expected_problems i d =
     (case d of
        YMap m \<Rightarrow>
          (if YStr ''kind'' \<notin> set (map fst m)
           then [''Document '' @ str_nat i @ '' missing '' @ [CHR 0x27] @ ''kind'' @ [CHR 0x27]] else [])
          @ (if \<not> has_metadata_name d then [''Document '' @ str_nat i @ '' missing metadata.name''] else [])
      | _ \<Rightarrow> [''Document '' @ str_nat i @ '' is not a mapping''])"

text \<open>The documents on which the code agrees with it: \<^verbatim>\<open>metadata\<close> absent or a mapping.\<close>

definition metadata_absent_or_mapping :: "yaml \<Rightarrow> bool" where
  "metadata_absent_or_mapping d =
     (case d of
        YMap m \<Rightarrow> (case map_of m (YStr ''metadata'') of
                     None \<Rightarrow> True
                   | Some (YMap md) \<Rightarrow> True
                   | Some other \<Rightarrow> False)
      | _ \<Rightarrow> True)"

subsection \<open>Manifest files and machines for the concrete cases\<close>

definition doc_no_kind :: yaml where
  "doc_no_kind = YMap [(YStr ''metadata'', YMap [(YStr ''name'', YStr ''web'')])]"

definition doc_no_name :: yaml where
  "doc_no_name = YMap [(YStr ''kind'', YStr ''Pod''), (YStr ''metadata'', YMap [(YStr ''labels'', YMap [])])]"

definition doc_null_metadata :: yaml where
  "doc_null_metadata = YMap [(YStr ''kind'', YStr ''Pod''), (YStr ''metadata'', YNull)]"

definition doc_string_metadata :: yaml where
  "doc_string_metadata = YMap [(YStr ''kind'', YStr ''Pod''), (YStr ''metadata'', YStr ''unnamed'')]"

text \<open>A machine without \<^verbatim>\<open>kubectl\<close>, with five manifest files.\<close>

definition os_local :: "unit os" where
  "os_local =
     \<lparr>os_which = (\<lambda>name w. (None, w)),
      os_run = (\<lambda>cmd w. (Inl (OtherException ''[Errno 2] No such file or directory''), w)),
      os_load_all = (\<lambda>path w.
        (if path = ''empty.yaml'' then Inr []
         else if path = ''two.yaml'' then Inr [doc_no_kind, doc_no_name]
         else if path = ''null-metadata.yaml'' then Inr [doc_null_metadata]
         else if path = ''string-metadata.yaml'' then Inr [doc_string_metadata]
         else if path = ''broken.yaml'' then Inl (OtherException ''mapping values are not allowed here'')
         else Inl (OtherException ''[Errno 2] No such file or directory''), w))\<rparr>"

definition st_init :: "unit st" where
  "st_init = \<lparr>st_world = (), st_trace = []\<rparr>"

subsection \<open>Two machines with \<^verbatim>\<open>kubectl\<close> for the concrete runs\<close>

text \<open>
  On \<open>os_flaky\<close> the world counts the dry-runs made so far: the first dry-run succeeds
  and every later one fails. On \<open>os_steady\<close> every dry-run succeeds. On both, a
  \<^verbatim>\<open>kubectl apply\<close> that is not a dry-run succeeds.
\<close>

definition os_flaky :: "nat os" where
  "os_flaky =
     \<lparr>os_which = (\<lambda>name w. (Some ''/usr/local/bin/kubectl'', w)),
      os_run = (\<lambda>cmd w.
        if take 3 cmd = [''kubectl'', ''apply'', ''--dry-run=server'']
        then (Inr (if w = 0
                   then \<lparr>returncode = 0, stdout = ''pod/app created (server dry run)'', stderr = ''''\<rparr>
                   else \<lparr>returncode = 1, stdout = '''', stderr = ''error: connection refused''\<rparr>), Suc w)
        else (Inr \<lparr>returncode = 0, stdout = ''pod/app created'', stderr = ''''\<rparr>, w)),
      os_load_all = (\<lambda>path w. (Inl (OtherException ''[Errno 2] No such file or directory''), w))\<rparr>"

definition os_steady :: "nat os" where
  "os_steady =
     \<lparr>os_which = (\<lambda>name w. (Some ''/usr/local/bin/kubectl'', w)),
      os_run = (\<lambda>cmd w.
        if take 3 cmd = [''kubectl'', ''apply'', ''--dry-run=server'']
        then (Inr \<lparr>returncode = 0, stdout = ''pod/app created (server dry run)'', stderr = ''''\<rparr>, Suc w)
        else (Inr \<lparr>returncode = 0, stdout = ''pod/app created'', stderr = ''''\<rparr>, w)),
      os_load_all = (\<lambda>path w. (Inl (OtherException ''[Errno 2] No such file or directory''), w))\<rparr>"

definition args_apply :: args where
  "args_apply = \<lparr>a_namespace = None, a_manifest = Some ''app.yaml'', a_apply = True, a_no_scan = True\<rparr>"

definition st_zero :: "nat st" where
  "st_zero = \<lparr>st_world = 0, st_trace = []\<rparr>"

section \<open>Properties\<close>

subsection \<open>Helper facts\<close>

lemma str_nat_digit: "n < 10 \<Longrightarrow> str_nat n = [digit_char n]"
  by (simp add: str_nat.simps)

lemma str_int_0: "str_int 0 = ''0''"
  by (simp add: str_int_def str_nat_digit)

lemma str_int_1: "str_int 1 = ''1''"
  by (simp add: str_int_def str_nat_digit)

lemma str_int_3: "str_int 3 = ''3''"
  by (simp add: str_int_def str_nat_digit)

lemma str_contains_iff: "str_contains pat s \<longleftrightarrow> (\<exists>ps ss. s = ps @ pat @ ss)"
proof (induction s)
  case Nil
  then show ?case by auto
next
  case (Cons c cs)
  show ?case
  proof
    assume "str_contains pat (c # cs)"
    then consider "prefix pat (c # cs)" | "str_contains pat cs" by auto
    then show "\<exists>ps ss. c # cs = ps @ pat @ ss"
    proof cases
      case 1
      then obtain ss where "c # cs = pat @ ss" by (auto simp: prefix_def)
      then have "c # cs = [] @ pat @ ss" by simp
      then show ?thesis by blast
    next
      case 2
      with Cons.IH obtain ps ss where "cs = ps @ pat @ ss" by blast
      then have "c # cs = (c # ps) @ pat @ ss" by simp
      then show ?thesis by blast
    qed
  next
    assume "\<exists>ps ss. c # cs = ps @ pat @ ss"
    then obtain ps ss where eq: "c # cs = ps @ pat @ ss" by blast
    show "str_contains pat (c # cs)"
    proof (cases ps)
      case Nil
      with eq have "prefix pat (c # cs)" by (simp add: prefix_def)
      then show ?thesis by simp
    next
      case (Cons p ps')
      with eq have "cs = ps' @ pat @ ss" by simp
      with Cons.IH have "str_contains pat cs" by blast
      then show ?thesis by simp
    qed
  qed
qed

lemma deployment_issues_mismatch:
  "filter is_replica_mismatch (deployment_issues d) =
     (if or0 (d_spec_replicas d) \<noteq> or0 (d_status_available_replicas d)
      then [replica_mismatch_issue d] else [])"
proof -
  have "filter is_replica_mismatch (concat (map (\<lambda>c.
             if dc_type c = ''Progressing'' \<and> dc_status c = ''False''
             then [\<lparr>severity = ''warning'',
                    title = ''Deployment not progressing: '' @ ns @ ''/'' @ name,
                    detail = dc_reason c @ '': '' @ dc_message c,
                    suggestion = sg\<rparr>]
             else []) conds)) = []" for ns name sg and conds :: "deployment_condition list"
    by (induction conds) (simp_all add: is_replica_mismatch_def)
  then show ?thesis
    by (simp add: deployment_issues_def Let_def is_replica_mismatch_def replica_mismatch_issue_def)
qed

lemma filter_concat_map:
  "filter P (concat (map f xs)) = concat (map (\<lambda>x. filter P (f x)) xs)"
  by (induction xs) simp_all

lemma concat_map_if_singleton:
  "concat (map (\<lambda>x. if Q x then [g x] else []) xs) = map g (filter Q xs)"
  by (induction xs) simp_all

subsection \<open>Deployments: replica mismatch\<close>

text \<open>
  C6. When the deployment listing succeeds, the ``Replica mismatch'' issues of the result
  are, in order, one warning for each deployment whose desired replica count differs from
  its available replica count (each count read with \<^verbatim>\<open>or 0\<close>, which leaves a present
  count unchanged), and none for the others; the detail carries both numbers. A
  deployment with desired 3 and available 3 gives no such issue; one with desired 3 and
  available 1 gives exactly one, whose detail contains \<^verbatim>\<open>desired=3\<close> and
  \<^verbatim>\<open>available=1\<close>.
\<close>

theorem check_deployments_replica_mismatch:
  assumes "list_deployments apps_v1 namespace = Inr deps"
  shows "\<exists>issues. check_deployments apps_v1 namespace = Inr issues
           \<and> filter is_replica_mismatch issues =
               map replica_mismatch_issue
                 (filter (\<lambda>d. or0 (d_spec_replicas d) \<noteq> or0 (d_status_available_replicas d)) deps)
           \<and> (\<forall>d \<in> set deps. \<forall>m n. d_spec_replicas d = Some m \<and> d_status_available_replicas d = Some n \<longrightarrow>
                 filter is_replica_mismatch (deployment_issues d) =
                   (if m \<noteq> n
                    then [\<lparr>severity = ''warning'',
                           title = ''Replica mismatch: '' @ d_metadata_namespace d @ ''/'' @ d_metadata_name d,
                           detail = ''desired='' @ str_int m @ '', available='' @ str_int n,
                           suggestion = suggestion (replica_mismatch_issue d)\<rparr>]
                    else []))
           \<and> (\<forall>d \<in> set deps. d_spec_replicas d = Some 3 \<and> d_status_available_replicas d = Some 3 \<longrightarrow>
                 filter is_replica_mismatch (deployment_issues d) = [])
           \<and> (\<forall>d \<in> set deps. d_spec_replicas d = Some 3 \<and> d_status_available_replicas d = Some 1 \<longrightarrow>
                 (\<exists>i. filter is_replica_mismatch (deployment_issues d) = [i]
                    \<and> severity i = ''warning''
                    \<and> str_contains ''desired=3'' (detail i)
                    \<and> str_contains ''available=1'' (detail i)))"
proof -
  have res: "check_deployments apps_v1 namespace = Inr (concat (map deployment_issues deps))"
    using assms by (simp add: check_deployments_def)
  have flt: "filter is_replica_mismatch (concat (map deployment_issues deps)) =
               map replica_mismatch_issue
                 (filter (\<lambda>d. or0 (d_spec_replicas d) \<noteq> or0 (d_status_available_replicas d)) deps)"
    by (simp add: filter_concat_map deployment_issues_mismatch concat_map_if_singleton)
  have gen: "filter is_replica_mismatch (deployment_issues d) =
                   (if m \<noteq> n
                    then [\<lparr>severity = ''warning'',
                           title = ''Replica mismatch: '' @ d_metadata_namespace d @ ''/'' @ d_metadata_name d,
                           detail = ''desired='' @ str_int m @ '', available='' @ str_int n,
                           suggestion = suggestion (replica_mismatch_issue d)\<rparr>]
                    else [])"
    if "d_spec_replicas d = Some m" "d_status_available_replicas d = Some n" for d m n
    using that by (simp add: deployment_issues_mismatch replica_mismatch_issue_def)
  have eq33: "filter is_replica_mismatch (deployment_issues d) = []"
    if "d_spec_replicas d = Some 3" "d_status_available_replicas d = Some 3" for d
    using that by (simp add: deployment_issues_mismatch)
  have eq31: "\<exists>i. filter is_replica_mismatch (deployment_issues d) = [i]
                    \<and> severity i = ''warning''
                    \<and> str_contains ''desired=3'' (detail i)
                    \<and> str_contains ''available=1'' (detail i)"
    if "d_spec_replicas d = Some 3" "d_status_available_replicas d = Some 1" for d
    using that
    by (simp add: deployment_issues_mismatch replica_mismatch_issue_def str_int_3 str_int_1)
  show ?thesis
    using res flt gen eq33 eq31 by blast
qed

theorem check_deployments_replica_mismatch_witness:
  "list_deployments apps_two None = Inr [dep_3_3, dep_3_1]
   \<and> (\<exists>issues. check_deployments apps_two None = Inr issues
        \<and> filter is_replica_mismatch issues = [replica_mismatch_issue dep_3_1]
        \<and> detail (replica_mismatch_issue dep_3_1) = ''desired=3, available=1'')"
proof -
  have h: "list_deployments apps_two None = Inr [dep_3_3, dep_3_1]"
    by (simp add: list_deployments_def apps_two_def)
  from check_deployments_replica_mismatch [OF h]
  obtain issues where "check_deployments apps_two None = Inr issues"
    and "filter is_replica_mismatch issues =
           map replica_mismatch_issue
             (filter (\<lambda>d. or0 (d_spec_replicas d) \<noteq> or0 (d_status_available_replicas d))
                [dep_3_3, dep_3_1])"
    by blast
  moreover have "detail (replica_mismatch_issue dep_3_1) = ''desired=3, available=1''"
    by (simp add: replica_mismatch_issue_def dep_3_1_def str_int_3 str_int_1)
  ultimately show ?thesis
    using h by (simp add: dep_3_3_def dep_3_1_def)
qed

text \<open>
  C10. An absent desired count and an absent available count are each read as 0 before the
  comparison. A deployment with both absent gives no ``Replica mismatch'' issue; one with
  the desired count absent and 1 available gives exactly one, a warning whose detail is
  \<^verbatim>\<open>desired=0, available=1\<close>. Both hold for any namespace, name and conditions, and
  through \<open>check_deployments\<close> on a listing that returns that deployment.
\<close>

theorem check_deployments_absent_counts_are_zero:
  "or0 None = 0
   \<and> filter is_replica_mismatch (deployment_issues d) =
       (if or0 (d_spec_replicas d) \<noteq> or0 (d_status_available_replicas d)
        then [replica_mismatch_issue d] else [])
   \<and> (\<exists>issues.
        check_deployments
          \<lparr>list_namespaced_deployment = (\<lambda>n. Inr [\<lparr>d_metadata_namespace = ns, d_metadata_name = name,
              d_spec_replicas = None, d_status_available_replicas = None,
              d_status_conditions = conds\<rparr>]),
           list_deployment_for_all_namespaces = Inr [\<lparr>d_metadata_namespace = ns, d_metadata_name = name,
              d_spec_replicas = None, d_status_available_replicas = None,
              d_status_conditions = conds\<rparr>]\<rparr> namespace = Inr issues
        \<and> filter is_replica_mismatch issues = [])
   \<and> (\<exists>issues.
        check_deployments
          \<lparr>list_namespaced_deployment = (\<lambda>n. Inr [\<lparr>d_metadata_namespace = ns, d_metadata_name = name,
              d_spec_replicas = None, d_status_available_replicas = Some 1,
              d_status_conditions = conds\<rparr>]),
           list_deployment_for_all_namespaces = Inr [\<lparr>d_metadata_namespace = ns, d_metadata_name = name,
              d_spec_replicas = None, d_status_available_replicas = Some 1,
              d_status_conditions = conds\<rparr>]\<rparr> namespace = Inr issues
        \<and> filter is_replica_mismatch issues =
            [\<lparr>severity = ''warning'',
              title = ''Replica mismatch: '' @ ns @ ''/'' @ name,
              detail = ''desired=0, available=1'',
              suggestion = ''Check recent rollout: kubectl rollout status deployment/{name} -n {ns}; inspect pods for crash/scheduling issues.''\<rparr>])"
proof -
  have ld: "list_deployments
          \<lparr>list_namespaced_deployment = (\<lambda>n. Inr [x]),
           list_deployment_for_all_namespaces = Inr [x]\<rparr> namespace = Inr [x]" for x
    by (cases namespace) (simp_all add: list_deployments_def)
  have cd: "check_deployments
          \<lparr>list_namespaced_deployment = (\<lambda>n. Inr [x]),
           list_deployment_for_all_namespaces = Inr [x]\<rparr> namespace = Inr (deployment_issues x)" for x
    by (simp add: check_deployments_def ld)
  show ?thesis
    by (simp add: cd deployment_issues_mismatch replica_mismatch_issue_def str_int_0 str_int_1)
qed

lemma conditions_dict_snoc:
  "conditions_dict (cs @ [c]) = (conditions_dict cs)(nc_type c \<mapsto> c)"
  by (simp add: conditions_dict_def)

lemma conditions_dict_Nil: "conditions_dict [] = Map.empty"
  by (simp add: conditions_dict_def)

lemma conditions_dict_last:
  "conditions_dict cs t =
     (if filter (\<lambda>c. nc_type c = t) cs = [] then None
      else Some (last (filter (\<lambda>c. nc_type c = t) cs)))"
proof (induction cs rule: rev_induct)
  case Nil
  show ?case by (simp add: conditions_dict_Nil)
next
  case (snoc c cs)
  then show ?case
    by (cases "nc_type c = t") (simp_all add: conditions_dict_snoc)
qed

lemma ready_condition_absent:
  "ready_condition n = None \<longleftrightarrow> ''Ready'' \<notin> nc_type ` set (or_nil (n_status_conditions n))"
  by (force simp: ready_condition_def conditions_dict_last filter_empty_conv)

lemma ready_condition_present:
  "ready_condition n = Some r \<Longrightarrow> r \<in> set (or_nil (n_status_conditions n)) \<and> nc_type r = ''Ready''"
proof -
  assume a: "ready_condition n = Some r"
  let ?fs = "filter (\<lambda>c. nc_type c = ''Ready'') (or_nil (n_status_conditions n))"
  from a have ne: "?fs \<noteq> []" and r: "r = last ?fs"
    by (auto simp: ready_condition_def conditions_dict_last split: if_splits)
  from ne have "last ?fs \<in> set ?fs" by (rule last_in_set)
  with r show ?thesis by simp
qed

lemma node_issues_not_ready:
  "filter is_not_ready_issue (node_issues n) = (if node_not_ready n then [not_ready_issue n] else [])"
  by (simp add: node_issues_def Let_def is_not_ready_issue_def node_pressure_issues_def
      node_not_ready_def not_ready_issue_def ready_condition_def split: option.splits)

lemma node_issues_mentions:
  "\<not> str_contains ''NotReady'' (n_metadata_name n) \<Longrightarrow>
   filter mentions_not_ready (node_issues n) = (if node_not_ready n then [not_ready_issue n] else [])"
  by (simp add: node_issues_def Let_def mentions_not_ready_def node_pressure_issues_def
      node_not_ready_def not_ready_issue_def ready_condition_def split: option.splits)

lemma not_ready_issue_title: "str_contains ''NotReady'' (title (not_ready_issue n))"
  by (simp add: not_ready_issue_def)

subsection \<open>Nodes: NotReady\<close>

text \<open>
  C7. When the node listing succeeds, the result holds, in order, exactly one NotReady
  warning (title \<^verbatim>\<open>Node NotReady: \<close> and the node's name, which contains
  \<^verbatim>\<open>NotReady\<close>) for each node whose Ready condition is absent or has a status other than
  \<^verbatim>\<open>True\<close>, and none for a node whose Ready status is \<^verbatim>\<open>True\<close>. Its detail is
  \<^verbatim>\<open>Ready=\<close>, the condition's status (\<^verbatim>\<open>Unknown\<close> when absent), and the last
  heartbeat time (\<^verbatim>\<open>unknown\<close> when absent). For a node whose own name does not contain
  \<^verbatim>\<open>NotReady\<close>, the same holds of the warnings with \<^verbatim>\<open>NotReady\<close> anywhere in the title.
\<close>

theorem check_nodes_not_ready:
  assumes "list_node v1 = Inr nodes"
  shows "check_nodes v1 = Inr (concat (map node_issues nodes))
       \<and> filter is_not_ready_issue (concat (map node_issues nodes)) =
           map not_ready_issue (filter node_not_ready nodes)
       \<and> (\<forall>n \<in> set nodes.
             filter is_not_ready_issue (node_issues n) = (if node_not_ready n then [not_ready_issue n] else [])
           \<and> (\<not> str_contains ''NotReady'' (n_metadata_name n) \<longrightarrow>
                filter mentions_not_ready (node_issues n) = (if node_not_ready n then [not_ready_issue n] else []))
           \<and> severity (not_ready_issue n) = ''warning''
           \<and> str_contains ''NotReady'' (title (not_ready_issue n))
           \<and> node_not_ready n =
               (ready_condition n = None \<or> (\<exists>r. ready_condition n = Some r \<and> nc_status r \<noteq> ''True''))
           \<and> (ready_condition n = None \<longleftrightarrow> ''Ready'' \<notin> nc_type ` set (or_nil (n_status_conditions n))))"
proof -
  have res: "check_nodes v1 = Inr (concat (map node_issues nodes))"
    using assms by (simp add: check_nodes_def)
  have flt: "filter is_not_ready_issue (concat (map node_issues nodes)) =
           map not_ready_issue (filter node_not_ready nodes)"
    by (simp add: filter_concat_map node_issues_not_ready concat_map_if_singleton)
  have sev: "severity (not_ready_issue n) = ''warning''" for n
    by (simp add: not_ready_issue_def)
  have nr: "node_not_ready n =
               (ready_condition n = None \<or> (\<exists>r. ready_condition n = Some r \<and> nc_status r \<noteq> ''True''))" for n
    by (cases "ready_condition n") (simp_all add: node_not_ready_def)
  show ?thesis
    using res flt sev nr node_issues_not_ready node_issues_mentions not_ready_issue_title
      ready_condition_absent
    by blast
qed

theorem check_nodes_not_ready_witness:
  "list_node v1_small = Inr [node_a, node_b, node_c]
   \<and> \<not> node_not_ready node_a \<and> node_not_ready node_b \<and> node_not_ready node_c
   \<and> filter is_not_ready_issue (concat (map node_issues [node_a, node_b, node_c]))
       = [not_ready_issue node_b, not_ready_issue node_c]
   \<and> filter mentions_not_ready (node_issues node_a) = []
   \<and> filter mentions_not_ready (node_issues node_b) = [not_ready_issue node_b]
   \<and> detail (not_ready_issue node_b) = ''Ready=Unknown (lastHeartbeat=2024-05-01 09:00:00+00:00)''
   \<and> detail (not_ready_issue node_c) = ''Ready=Unknown (lastHeartbeat=unknown)''"
proof -
  have h: "list_node v1_small = Inr [node_a, node_b, node_c]"
    by (simp add: v1_small_def)
  have ra: "ready_condition node_a = Some \<lparr>nc_type = ''Ready'', nc_status = ''True'',
                 nc_last_heartbeat_time = ''2024-05-01 10:00:00+00:00'',
                 nc_last_transition_time = ''2024-04-01 08:00:00+00:00''\<rparr>"
    by (simp add: ready_condition_def node_a_def conditions_dict_def)
  have rb: "ready_condition node_b = Some \<lparr>nc_type = ''Ready'', nc_status = ''Unknown'',
                 nc_last_heartbeat_time = ''2024-05-01 09:00:00+00:00'',
                 nc_last_transition_time = ''2024-05-01 09:05:00+00:00''\<rparr>"
    by (simp add: ready_condition_def node_b_def conditions_dict_def)
  have rc: "ready_condition node_c = None"
    by (simp add: ready_condition_def node_c_def conditions_dict_def)
  have na: "\<not> node_not_ready node_a" and nb: "node_not_ready node_b" and nc: "node_not_ready node_c"
    by (simp_all add: node_not_ready_def ra rb rc)
  have ca: "\<not> str_contains ''NotReady'' (n_metadata_name node_a)"
    and cb: "\<not> str_contains ''NotReady'' (n_metadata_name node_b)"
    by (simp_all add: node_a_def node_b_def)
  note cn = check_nodes_not_ready [OF h]
  have f1: "filter is_not_ready_issue (concat (map node_issues [node_a, node_b, node_c]))
       = [not_ready_issue node_b, not_ready_issue node_c]"
    using cn na nb nc by simp
  have f2: "filter mentions_not_ready (node_issues node_a) = []"
    using cn ca na by simp
  have f3: "filter mentions_not_ready (node_issues node_b) = [not_ready_issue node_b]"
    using cn cb nb by simp
  have d1: "detail (not_ready_issue node_b) = ''Ready=Unknown (lastHeartbeat=2024-05-01 09:00:00+00:00)''"
    by (simp add: not_ready_issue_def rb)
  have d2: "detail (not_ready_issue node_c) = ''Ready=Unknown (lastHeartbeat=unknown)''"
    by (simp add: not_ready_issue_def rc)
  show ?thesis
    using h na nb nc f1 f2 f3 d1 d2 by simp
qed

subsection \<open>Pods: container issues are independent\<close>

lemma container_issues_subset:
  assumes "list_pods v1 namespace = Inr pods" "p \<in> set pods"
    "cs \<in> set (or_nil (p_status_container_statuses p))"
  shows "\<exists>issues. analyze_pods v1 namespace = Inr issues
           \<and> set (container_issues (p_metadata_namespace p) (p_metadata_name p) cs) \<subseteq> set issues"
proof -
  have "analyze_pods v1 namespace = Inr (concat (map pod_issues pods))"
    using assms(1) by (simp add: analyze_pods_def)
  moreover have "set (container_issues (p_metadata_namespace p) (p_metadata_name p) cs)
                   \<subseteq> set (pod_issues p)"
    using assms(3) by (auto simp: pod_issues_def Let_def)
  moreover have "set (pod_issues p) \<subseteq> set (concat (map pod_issues pods))"
    using assms(2) by auto
  ultimately show ?thesis by blast
qed

lemma str_int_7: "str_int 7 = ''7''"
  by (simp add: str_int_def str_nat_digit)

text \<open>
  C8. The three tests on a container status (waiting reason, last termination, restart
  count) each append on their own. For a container of a listed pod whose waiting reason
  is \<^verbatim>\<open>CrashLoopBackOff\<close> and whose restart count is 7, the issues of that container
  begin with the warning for the waiting reason and end with a different warning, for
  the high restart count, with detail \<^verbatim>\<open>Restarts=7\<close>; both are in the result of
  \<open>analyze_pods\<close>, which so has at least two issues.
\<close>

theorem analyze_pods_crashloop_and_restarts:
  assumes "list_pods v1 namespace = Inr pods" and "p \<in> set pods"
    and "cs \<in> set (or_nil (p_status_container_statuses p))"
    and "cs_state_waiting cs = Some w" and "w_reason w = Some ''CrashLoopBackOff''"
    and "cs_restart_count cs = 7"
  shows "\<exists>issues a b mid.
           analyze_pods v1 namespace = Inr issues
         \<and> container_issues (p_metadata_namespace p) (p_metadata_name p) cs = a # mid @ [b]
         \<and> a \<noteq> b
         \<and> a \<in> set issues \<and> b \<in> set issues \<and> 2 \<le> length issues
         \<and> severity a = ''warning''
         \<and> title a = ''Container CrashLoopBackOff/Error: '' @ p_metadata_namespace p @ ''/''
                        @ p_metadata_name p @ '':'' @ cs_name cs
         \<and> detail a = ''Reason=CrashLoopBackOff. Message='' @ or_str (w_message w) ''''
         \<and> severity b = ''warning''
         \<and> title b = ''High restart count: '' @ p_metadata_namespace p @ ''/''
                        @ p_metadata_name p @ '':'' @ cs_name cs
         \<and> detail b = ''Restarts=7''
         \<and> [b] = restart_issues (p_metadata_namespace p) (p_metadata_name p) (cs_name cs) 7"
proof -
  let ?ns = "p_metadata_namespace p" and ?name = "p_metadata_name p" and ?cname = "cs_name cs"
  define a where "a = \<lparr>severity = ''warning'',
                title = ''Container CrashLoopBackOff/Error: '' @ ?ns @ ''/'' @ ?name @ '':'' @ ?cname,
                detail = ''Reason=CrashLoopBackOff. Message='' @ or_str (w_message w) '''',
                suggestion = ''Inspect logs: kubectl logs -n {ns} {name} -c {cname} --previous'' @ [CHR 0x0A]
                  @ ''Common fixes: fix app exception, increase readinessTimeout, check env/config, use image with correct tag.''\<rparr>"
  define b where "b = \<lparr>severity = ''warning'',
             title = ''High restart count: '' @ ?ns @ ''/'' @ ?name @ '':'' @ ?cname,
             detail = ''Restarts=7'',
             suggestion = ''Investigate initialization,CrashLoopBackOff; check livenessProbe too aggressive, check readiness probe vs startup probe.''\<rparr>"
  define mid where "mid = (case cs_last_state_terminated cs of None \<Rightarrow> []
                           | Some term \<Rightarrow> terminated_issues ?ns ?name ?cname term)"
  have wi: "waiting_issues ?ns ?name ?cname w = [a]"
    using assms(5) by (simp add: waiting_issues_def Let_def a_def)
  have ri: "restart_issues ?ns ?name ?cname 7 = [b]"
    by (simp add: restart_issues_def b_def str_int_7)
  have ci: "container_issues ?ns ?name cs = a # mid @ [b]"
    using assms(4,6) wi ri by (simp add: container_issues_def Let_def mid_def)
  have ne: "a \<noteq> b"
    by (simp add: a_def b_def)
  from container_issues_subset [OF assms(1-3)]
  obtain issues where res: "analyze_pods v1 namespace = Inr issues"
    and sub: "set (container_issues ?ns ?name cs) \<subseteq> set issues"
    by blast
  from sub ci have ina: "a \<in> set issues" and inb: "b \<in> set issues"
    by auto
  have "card {a, b} \<le> card (set issues)"
    using ina inb by (intro card_mono) auto
  also have "\<dots> \<le> length issues" by (rule card_length)
  finally have len: "2 \<le> length issues" using ne by simp
  have fa: "severity a = ''warning''"
    "title a = ''Container CrashLoopBackOff/Error: '' @ ?ns @ ''/'' @ ?name @ '':'' @ ?cname"
    "detail a = ''Reason=CrashLoopBackOff. Message='' @ or_str (w_message w) ''''"
    by (simp_all add: a_def)
  have fb: "severity b = ''warning''"
    "title b = ''High restart count: '' @ ?ns @ ''/'' @ ?name @ '':'' @ ?cname"
    "detail b = ''Restarts=7''"
    by (simp_all add: b_def)
  show ?thesis
    by (rule exI [of _ issues], rule exI [of _ a], rule exI [of _ b], rule exI [of _ mid])
      (simp add: res ci ne ina inb len fa fb ri)
qed

theorem analyze_pods_crashloop_and_restarts_witness:
  "list_pods v1_small None = Inr [crash_pod] \<and> crash_pod \<in> set [crash_pod]
   \<and> crash_container \<in> set (or_nil (p_status_container_statuses crash_pod))
   \<and> cs_state_waiting crash_container
       = Some \<lparr>w_reason = Some ''CrashLoopBackOff'', w_message = Some ''back-off 5m0s''\<rparr>
   \<and> cs_restart_count crash_container = 7
   \<and> (\<exists>issues a b mid. analyze_pods v1_small None = Inr issues
        \<and> container_issues ''default'' ''app'' crash_container = a # mid @ [b]
        \<and> a \<noteq> b \<and> a \<in> set issues \<and> b \<in> set issues \<and> 2 \<le> length issues
        \<and> title a = ''Container CrashLoopBackOff/Error: default/app:main''
        \<and> detail a = ''Reason=CrashLoopBackOff. Message=back-off 5m0s''
        \<and> title b = ''High restart count: default/app:main''
        \<and> detail b = ''Restarts=7'')"
proof -
  have h1: "list_pods v1_small None = Inr [crash_pod]"
    by (simp add: list_pods_def v1_small_def)
  have h2: "crash_pod \<in> set [crash_pod]" by simp
  have h3: "crash_container \<in> set (or_nil (p_status_container_statuses crash_pod))"
    by (simp add: crash_pod_def)
  have h4: "cs_state_waiting crash_container
       = Some \<lparr>w_reason = Some ''CrashLoopBackOff'', w_message = Some ''back-off 5m0s''\<rparr>"
    by (simp add: crash_container_def)
  have h5: "w_reason \<lparr>w_reason = Some ''CrashLoopBackOff'', w_message = Some ''back-off 5m0s''\<rparr>
              = Some ''CrashLoopBackOff''"
    by simp
  have h6: "cs_restart_count crash_container = 7"
    by (simp add: crash_container_def)
  from analyze_pods_crashloop_and_restarts [OF h1 h2 h3 h4 h5 h6]
  obtain issues a b mid where r: "analyze_pods v1_small None = Inr issues"
    "container_issues (p_metadata_namespace crash_pod) (p_metadata_name crash_pod) crash_container
       = a # mid @ [b]"
    "a \<noteq> b" "a \<in> set issues" "b \<in> set issues" "2 \<le> length issues"
    "title a = ''Container CrashLoopBackOff/Error: '' @ p_metadata_namespace crash_pod @ ''/''
                        @ p_metadata_name crash_pod @ '':'' @ cs_name crash_container"
    "detail a = ''Reason=CrashLoopBackOff. Message=''
                  @ or_str (w_message \<lparr>w_reason = Some ''CrashLoopBackOff'', w_message = Some ''back-off 5m0s''\<rparr>) ''''"
    "title b = ''High restart count: '' @ p_metadata_namespace crash_pod @ ''/''
                        @ p_metadata_name crash_pod @ '':'' @ cs_name crash_container"
    "detail b = ''Restarts=7''"
    by blast
  have "container_issues ''default'' ''app'' crash_container = a # mid @ [b]"
    using r(2) by (simp add: crash_pod_def)
  moreover have "title a = ''Container CrashLoopBackOff/Error: default/app:main''"
    using r(7) by (simp add: crash_pod_def crash_container_def)
  moreover have "detail a = ''Reason=CrashLoopBackOff. Message=back-off 5m0s''"
    using r(8) by simp
  moreover have "title b = ''High restart count: default/app:main''"
    using r(9) by (simp add: crash_pod_def crash_container_def)
  ultimately have "analyze_pods v1_small None = Inr issues
        \<and> container_issues ''default'' ''app'' crash_container = a # mid @ [b]
        \<and> a \<noteq> b \<and> a \<in> set issues \<and> b \<in> set issues \<and> 2 \<le> length issues
        \<and> title a = ''Container CrashLoopBackOff/Error: default/app:main''
        \<and> detail a = ''Reason=CrashLoopBackOff. Message=back-off 5m0s''
        \<and> title b = ''High restart count: default/app:main''
        \<and> detail b = ''Restarts=7''"
    using r(1,3,4,5,6,10) by simp
  then have "\<exists>issues a b mid. analyze_pods v1_small None = Inr issues
        \<and> container_issues ''default'' ''app'' crash_container = a # mid @ [b]
        \<and> a \<noteq> b \<and> a \<in> set issues \<and> b \<in> set issues \<and> 2 \<le> length issues
        \<and> title a = ''Container CrashLoopBackOff/Error: default/app:main''
        \<and> detail a = ''Reason=CrashLoopBackOff. Message=back-off 5m0s''
        \<and> title b = ''High restart count: default/app:main''
        \<and> detail b = ''Restarts=7''"
    by (intro exI)
  then show ?thesis
    using h1 h3 h4 h6 by simp
qed

subsection \<open>Listing failures\<close>

lemma check_nodes_listing_failure:
  "list_node v1 = Inl (ApiException e) \<Longrightarrow>
   check_nodes v1 = Inr [\<lparr>severity = ''error'', title = ''Failed to list nodes'',
                          detail = e, suggestion = ''Check RBAC and connectivity''\<rparr>]"
  by (simp add: check_nodes_def)

lemma check_deployments_listing_failure:
  "list_deployments apps_v1 namespace = Inl (ApiException e) \<Longrightarrow>
   check_deployments apps_v1 namespace =
     Inr [\<lparr>severity = ''error'', title = ''Failed to list deployments'',
           detail = e, suggestion = ''Check RBAC and connectivity''\<rparr>]"
  by (simp add: check_deployments_def)

lemma check_pvcs_listing_failure:
  "list_pvcs v1 namespace = Inl (ApiException e) \<Longrightarrow>
   check_pvcs v1 namespace =
     Inr [\<lparr>severity = ''error'', title = ''Failed to list PVCs'',
           detail = e, suggestion = ''Check RBAC and connectivity''\<rparr>]"
  by (simp add: check_pvcs_def)

lemma collect_events_listing_failure:
  "list_events v1 namespace = Inl (ApiException e) \<Longrightarrow>
   collect_events v1 now since_minutes namespace =
     Inr [\<lparr>severity = ''error'', title = ''Failed to list events'',
           detail = e, suggestion = ''Check RBAC and connectivity''\<rparr>]"
  by (simp add: collect_events_def)

lemma analyze_pods_listing_failure:
  "list_pods v1 namespace = Inl e \<Longrightarrow> analyze_pods v1 namespace = Inl e"
  by (simp add: analyze_pods_def)

text \<open>
  C2. On a cluster that refuses every listing call with an \<^verbatim>\<open>ApiException\<close>, the node,
  deployment, claim and event classifiers each return exactly one \<^verbatim>\<open>error\<close> issue
  that suggests RBAC and connectivity checks, but \<open>analyze_pods\<close>, with or without a
  namespace, returns no issue list: the exception of the pod listing leaves it uncaught.
\<close>

theorem analyze_pods_listing_failure_uncaught:
  "analyze_pods v1_forbidden None = Inl (ApiException ''(403) Reason: Forbidden'')
   \<and> analyze_pods v1_forbidden (Some ''default'') = Inl (ApiException ''(403) Reason: Forbidden'')
   \<and> check_nodes v1_forbidden =
       Inr [\<lparr>severity = ''error'', title = ''Failed to list nodes'',
             detail = ''(403) Reason: Forbidden'', suggestion = ''Check RBAC and connectivity''\<rparr>]
   \<and> check_deployments apps_forbidden None =
       Inr [\<lparr>severity = ''error'', title = ''Failed to list deployments'',
             detail = ''(403) Reason: Forbidden'', suggestion = ''Check RBAC and connectivity''\<rparr>]
   \<and> check_pvcs v1_forbidden None =
       Inr [\<lparr>severity = ''error'', title = ''Failed to list PVCs'',
             detail = ''(403) Reason: Forbidden'', suggestion = ''Check RBAC and connectivity''\<rparr>]
   \<and> collect_events v1_forbidden now_ex 60 None =
       Inr [\<lparr>severity = ''error'', title = ''Failed to list events'',
             detail = ''(403) Reason: Forbidden'', suggestion = ''Check RBAC and connectivity''\<rparr>]"
proof -
  have "list_pods v1_forbidden None = Inl (ApiException ''(403) Reason: Forbidden'')"
    and "list_pods v1_forbidden (Some ''default'') = Inl (ApiException ''(403) Reason: Forbidden'')"
    by (simp_all add: list_pods_def v1_forbidden_def)
  then have pods: "analyze_pods v1_forbidden None = Inl (ApiException ''(403) Reason: Forbidden'')"
    "analyze_pods v1_forbidden (Some ''default'') = Inl (ApiException ''(403) Reason: Forbidden'')"
    by (simp_all add: analyze_pods_listing_failure)
  have "list_node v1_forbidden = Inl (ApiException ''(403) Reason: Forbidden'')"
    by (simp add: v1_forbidden_def)
  note nodes = check_nodes_listing_failure [OF this]
  have "list_deployments apps_forbidden None = Inl (ApiException ''(403) Reason: Forbidden'')"
    by (simp add: list_deployments_def apps_forbidden_def)
  note deps = check_deployments_listing_failure [OF this]
  have "list_pvcs v1_forbidden None = Inl (ApiException ''(403) Reason: Forbidden'')"
    by (simp add: list_pvcs_def v1_forbidden_def)
  note pvcs = check_pvcs_listing_failure [OF this]
  have "list_events v1_forbidden None = Inl (ApiException ''(403) Reason: Forbidden'')"
    by (simp add: list_events_def v1_forbidden_def)
  note evs = collect_events_listing_failure [OF this, of now_ex 60]
  show ?thesis
    using pods nodes deps pvcs evs by simp
qed

subsection \<open>Events: timestamp choice, recency window, type\<close>

lemma or_time_chosen:
  "or_time (or_time (e_last_timestamp e) (e_event_time e)) (e_first_timestamp e) = chosen_timestamp e"
  by (cases "e_last_timestamp e"; cases "e_event_time e") (simp_all add: chosen_timestamp_def)

lemma event_issues_promoted:
  "event_issues cutoff e = (if promoted cutoff e then [event_issue e] else [])"
  by (cases "chosen_timestamp e") (simp_all add: event_issues_def or_time_chosen promoted_def)

lemma concat_event_issues:
  "concat (map (event_issues cutoff) events) = map event_issue (filter (promoted cutoff) events)"
  by (induction events) (simp_all add: event_issues_promoted)

text \<open>
  C4. When the event listing succeeds, the result is, in order, one issue for each event
  that is promoted: its chosen timestamp (last-seen time if present, else event time if
  present, else first-seen time) exists and is not older than the cutoff
  \<open>now - since_minutes * 60\<close>, and its type is exactly \<^verbatim>\<open>Warning\<close>. Under the
  60-minute window a Warning event last seen 30 minutes (1800 s) ago gives its issue, one
  last seen 90 minutes (5400 s) ago gives none, and an event of type \<^verbatim>\<open>Normal\<close> gives
  none whatever its timestamps.
\<close>

theorem collect_events_recent_warnings:
  assumes "list_events v1 namespace = Inr events"
  shows "collect_events v1 now since_minutes namespace =
           Inr (map event_issue (filter (promoted (now - of_int (since_minutes * 60))) events))
       \<and> (\<forall>e \<in> set events.
             chosen_timestamp e =
               (case e_last_timestamp e of
                  Some t \<Rightarrow> Some t
                | None \<Rightarrow> (case e_event_time e of Some t \<Rightarrow> Some t | None \<Rightarrow> e_first_timestamp e))
           \<and> promoted (now - of_int (since_minutes * 60)) e =
               (\<exists>ts. chosen_timestamp e = Some ts \<and> now - of_int (since_minutes * 60) \<le> ts
                     \<and> e_type e = Some ''Warning'')
           \<and> (e_type e = Some ''Warning'' \<and> e_last_timestamp e = Some (now - 1800)
                \<longrightarrow> event_issues (now - of_int (60 * 60)) e = [event_issue e])
           \<and> (e_type e = Some ''Warning'' \<and> e_last_timestamp e = Some (now - 5400)
                \<longrightarrow> event_issues (now - of_int (60 * 60)) e = [])
           \<and> (e_type e = Some ''Normal'' \<longrightarrow> event_issues (now - of_int (60 * 60)) e = [])
           \<and> (chosen_timestamp e = None \<longrightarrow> event_issues (now - of_int (since_minutes * 60)) e = []))"
proof -
  have res: "collect_events v1 now since_minutes namespace =
           Inr (map event_issue (filter (promoted (now - of_int (since_minutes * 60))) events))"
    using assms
    by (simp add: collect_events_def Let_def concat_event_issues)
  have ch: "chosen_timestamp e =
               (case e_last_timestamp e of
                  Some t \<Rightarrow> Some t
                | None \<Rightarrow> (case e_event_time e of Some t \<Rightarrow> Some t | None \<Rightarrow> e_first_timestamp e))" for e
    by (simp add: chosen_timestamp_def)
  have pr: "promoted c e = (\<exists>ts. chosen_timestamp e = Some ts \<and> c \<le> ts \<and> e_type e = Some ''Warning'')"
    for c e
    by (cases "chosen_timestamp e") (auto simp: promoted_def)
  have w30: "event_issues (now - of_int (60 * 60)) e = [event_issue e]"
    if "e_type e = Some ''Warning''" "e_last_timestamp e = Some (now - 1800)" for e
    using that by (simp add: event_issues_promoted promoted_def chosen_timestamp_def)
  have w90: "event_issues (now - of_int (60 * 60)) e = []"
    if "e_type e = Some ''Warning''" "e_last_timestamp e = Some (now - 5400)" for e
    using that by (simp add: event_issues_promoted promoted_def chosen_timestamp_def)
  have nrm: "event_issues c e = []" if "e_type e = Some ''Normal''" for c e
    using that by (cases "chosen_timestamp e") (simp_all add: event_issues_promoted promoted_def)
  have unt: "event_issues c e = []" if "chosen_timestamp e = None" for c e
    using that by (simp add: event_issues_promoted promoted_def)
  show ?thesis
    using res ch pr w30 w90 nrm unt by simp
qed

theorem collect_events_recent_warnings_witness:
  "list_events v1_small None = Inr [ev_warning_30, ev_warning_90, ev_normal_5, ev_untimed]
   \<and> collect_events v1_small now_ex 60 None = Inr [event_issue ev_warning_30]
   \<and> chosen_timestamp ev_warning_30 = Some (now_ex - 1800)
   \<and> chosen_timestamp ev_warning_90 = Some (now_ex - 5400)
   \<and> chosen_timestamp ev_untimed = None
   \<and> title (event_issue ev_warning_30) = ''Event: Pod app - BackOff''"
proof -
  have h: "list_events v1_small None = Inr [ev_warning_30, ev_warning_90, ev_normal_5, ev_untimed]"
    by (simp add: list_events_def v1_small_def)
  have c1: "chosen_timestamp ev_warning_30 = Some (now_ex - 1800)"
    and c2: "chosen_timestamp ev_warning_90 = Some (now_ex - 5400)"
    and c3: "chosen_timestamp ev_normal_5 = Some (now_ex - 300)"
    and c4: "chosen_timestamp ev_untimed = None"
    by (simp_all add: chosen_timestamp_def ev_warning_30_def ev_warning_90_def ev_normal_5_def
        ev_untimed_def)
  have p1: "promoted (now_ex - of_int (60 * 60)) ev_warning_30"
    and p2: "\<not> promoted (now_ex - of_int (60 * 60)) ev_warning_90"
    and p3: "\<not> promoted (now_ex - of_int (60 * 60)) ev_normal_5"
    and p4: "\<not> promoted (now_ex - of_int (60 * 60)) ev_untimed"
  proof -
    have t1: "e_type ev_warning_30 = Some ''Warning''" by (simp add: ev_warning_30_def)
    have t3: "e_type ev_normal_5 = Some ''Normal''" by (simp add: ev_normal_5_def)
    show "promoted (now_ex - of_int (60 * 60)) ev_warning_30"
      by (simp add: promoted_def c1 t1)
    show "\<not> promoted (now_ex - of_int (60 * 60)) ev_warning_90"
      by (simp add: promoted_def c2)
    show "\<not> promoted (now_ex - of_int (60 * 60)) ev_normal_5"
      by (simp add: promoted_def c3 t3)
    show "\<not> promoted (now_ex - of_int (60 * 60)) ev_untimed"
      by (simp add: promoted_def c4)
  qed
  have "collect_events v1_small now_ex 60 None = Inr [event_issue ev_warning_30]"
    using collect_events_recent_warnings [OF h, of now_ex 60] p1 p2 p3 p4 by simp
  moreover have "title (event_issue ev_warning_30) = ''Event: Pod app - BackOff''"
    by (simp add: event_issue_def ev_warning_30_def)
  ultimately show ?thesis
    using h c1 c2 c4 by simp
qed

subsection \<open>Aggregation: the order of the report\<close>

lemma issue_key_rank:
  "issue_key x =
     ((if severity x = ''error'' then 0 else if severity x = ''info'' then 2 else 1), title x)"
  by (simp add: issue_key_def dict_get_def sev_order_def)

lemma issues_sorted_nth_mono:
  assumes "i < j" "j < length (issues_sorted xs)"
  shows "issue_key (issues_sorted xs ! i) \<le> issue_key (issues_sorted xs ! j)"
proof -
  have "sorted (map issue_key (issues_sorted xs))"
    by (simp add: issues_sorted_def)
  moreover have "i \<le> j" "j < length (map issue_key (issues_sorted xs))"
    using assms by simp_all
  ultimately have "map issue_key (issues_sorted xs) ! i \<le> map issue_key (issues_sorted xs) ! j"
    by (rule sorted_nth_mono)
  then show ?thesis using assms by simp
qed

lemma issues_sorted_unique:
  assumes "mset ys = mset xs" "sorted (map issue_key ys)"
    "\<forall>k. filter (\<lambda>x. issue_key x = k) ys = filter (\<lambda>x. issue_key x = k) xs"
  shows "ys = issues_sorted xs"
proof -
  have "filter (\<lambda>x. issue_key k = issue_key x) ys = filter (\<lambda>x. issue_key k = issue_key x) xs" for k
    using assms(3) [THEN spec, of "issue_key k"] by (simp add: eq_commute [of "issue_key k"])
  with assms(1,2) have "sort_key issue_key xs = ys"
    by (intro properties_for_sort_key) simp_all
  then show ?thesis by (simp add: issues_sorted_def)
qed

lemma scan_cluster_concat:
  assumes "scan_cluster cl namespace st = (Inr issues, st')"
  shows "\<exists>a b c d e.
           check_nodes (cl_core_v1 cl) = Inr a
         \<and> analyze_pods (cl_core_v1 cl) namespace = Inr b
         \<and> check_deployments (cl_apps_v1 cl) namespace = Inr c
         \<and> check_pvcs (cl_core_v1 cl) namespace = Inr d
         \<and> collect_events (cl_core_v1 cl) (cl_now cl) 60 namespace = Inr e
         \<and> issues = a @ b @ c @ d @ e"
  using assms
  by (auto simp: scan_cluster_def Let_def split: prod.splits sum.splits)

text \<open>
  C3. The list the report is rendered from, \<open>issues_sorted xs\<close>, is the stable sort of
  the aggregated list \<open>xs\<close> by the key (severity rank, title) with rank 0 for
  \<^verbatim>\<open>error\<close>, 1 for \<^verbatim>\<open>warning\<close>, 2 for \<^verbatim>\<open>info\<close>: it has the same issues as \<open>xs\<close>,
  its keys ascend, issues with equal keys keep their order in \<open>xs\<close>, and it is the only
  list with these three properties. So no warning or info comes before an error, no info
  before a warning, and among issues of one severity the titles ascend lexicographically.
  A non-empty \<open>xs\<close> is printed as the header line followed by the numbered entries in
  that order, and the list a scan aggregates is the concatenation of the node, pod,
  deployment, claim and event issues in that order.
\<close>

theorem issues_sorted_stable_by_severity_title:
  "mset (issues_sorted xs) = mset xs
   \<and> sorted (map issue_key (issues_sorted xs))
   \<and> (\<forall>k. filter (\<lambda>x. issue_key x = k) (issues_sorted xs) = filter (\<lambda>x. issue_key x = k) xs)
   \<and> (\<forall>ys. mset ys = mset xs \<and> sorted (map issue_key ys)
            \<and> (\<forall>k. filter (\<lambda>x. issue_key x = k) ys = filter (\<lambda>x. issue_key x = k) xs)
          \<longrightarrow> ys = issues_sorted xs)
   \<and> (\<forall>x. issue_key x =
            ((if severity x = ''error'' then 0 else if severity x = ''info'' then 2 else 1), title x))
   \<and> (\<forall>i j. i < j \<and> j < length (issues_sorted xs) \<longrightarrow>
          (severity (issues_sorted xs ! j) = ''error'' \<longrightarrow>
             severity (issues_sorted xs ! i) = ''error'')
        \<and> (severity (issues_sorted xs ! j) = ''warning'' \<longrightarrow>
             severity (issues_sorted xs ! i) \<noteq> ''info'')
        \<and> (severity (issues_sorted xs ! i) = ''info'' \<longrightarrow>
             severity (issues_sorted xs ! j) = ''info'')
        \<and> (severity (issues_sorted xs ! i) = severity (issues_sorted xs ! j) \<longrightarrow>
             title (issues_sorted xs ! i) \<le> title (issues_sorted xs ! j)))
   \<and> (xs \<noteq> [] \<longrightarrow>
        pretty_print_issues xs =
          ([CHR 0x0A] @ ''Detected issues & suggested fixes:'')
          # concat (map render_issue (zip [1 ..< Suc (length xs)] (issues_sorted xs))))
   \<and> (\<forall>cl namespace (st :: 'w st) st'. scan_cluster cl namespace st = (Inr xs, st') \<longrightarrow>
        (\<exists>a b c d e.
           check_nodes (cl_core_v1 cl) = Inr a
         \<and> analyze_pods (cl_core_v1 cl) namespace = Inr b
         \<and> check_deployments (cl_apps_v1 cl) namespace = Inr c
         \<and> check_pvcs (cl_core_v1 cl) namespace = Inr d
         \<and> collect_events (cl_core_v1 cl) (cl_now cl) 60 namespace = Inr e
         \<and> xs = a @ b @ c @ d @ e))"
proof -
  have p1: "mset (issues_sorted xs) = mset xs"
    by (simp add: issues_sorted_def)
  have p2: "sorted (map issue_key (issues_sorted xs))"
    by (simp add: issues_sorted_def)
  have p3: "\<forall>k. filter (\<lambda>x. issue_key x = k) (issues_sorted xs) = filter (\<lambda>x. issue_key x = k) xs"
    by (simp add: issues_sorted_def sort_key_stable)
  have p4: "\<forall>ys. mset ys = mset xs \<and> sorted (map issue_key ys)
            \<and> (\<forall>k. filter (\<lambda>x. issue_key x = k) ys = filter (\<lambda>x. issue_key x = k) xs)
          \<longrightarrow> ys = issues_sorted xs"
    using issues_sorted_unique by blast
  have p5: "\<forall>x. issue_key x =
            ((if severity x = ''error'' then 0 else if severity x = ''info'' then 2 else 1), title x)"
    by (simp add: issue_key_rank)
  have p6: "(severity (issues_sorted xs ! j) = ''error'' \<longrightarrow>
             severity (issues_sorted xs ! i) = ''error'')
        \<and> (severity (issues_sorted xs ! j) = ''warning'' \<longrightarrow>
             severity (issues_sorted xs ! i) \<noteq> ''info'')
        \<and> (severity (issues_sorted xs ! i) = ''info'' \<longrightarrow>
             severity (issues_sorted xs ! j) = ''info'')
        \<and> (severity (issues_sorted xs ! i) = severity (issues_sorted xs ! j) \<longrightarrow>
             title (issues_sorted xs ! i) \<le> title (issues_sorted xs ! j))"
    if "i < j" "j < length (issues_sorted xs)" for i j
  proof -
    have "issue_key (issues_sorted xs ! i) \<le> issue_key (issues_sorted xs ! j)"
      using that by (rule issues_sorted_nth_mono)
    then show ?thesis
      by (simp add: issue_key_rank split: if_splits)
  qed
  have len: "length (issues_sorted xs) = length xs"
    by (simp add: issues_sorted_def)
  have p7: "xs \<noteq> [] \<longrightarrow>
        pretty_print_issues xs =
          ([CHR 0x0A] @ ''Detected issues & suggested fixes:'')
          # concat (map render_issue (zip [1 ..< Suc (length xs)] (issues_sorted xs)))"
    by (simp add: pretty_print_issues_def len)
  have p8: "\<forall>cl namespace (st :: 'w st) st'. scan_cluster cl namespace st = (Inr xs, st') \<longrightarrow>
        (\<exists>a b c d e.
           check_nodes (cl_core_v1 cl) = Inr a
         \<and> analyze_pods (cl_core_v1 cl) namespace = Inr b
         \<and> check_deployments (cl_apps_v1 cl) namespace = Inr c
         \<and> check_pvcs (cl_core_v1 cl) namespace = Inr d
         \<and> collect_events (cl_core_v1 cl) (cl_now cl) 60 namespace = Inr e
         \<and> xs = a @ b @ c @ d @ e)"
    using scan_cluster_concat by blast
  from p6 have p6': "\<forall>i j. i < j \<and> j < length (issues_sorted xs) \<longrightarrow>
          (severity (issues_sorted xs ! j) = ''error'' \<longrightarrow>
             severity (issues_sorted xs ! i) = ''error'')
        \<and> (severity (issues_sorted xs ! j) = ''warning'' \<longrightarrow>
             severity (issues_sorted xs ! i) \<noteq> ''info'')
        \<and> (severity (issues_sorted xs ! i) = ''info'' \<longrightarrow>
             severity (issues_sorted xs ! j) = ''info'')
        \<and> (severity (issues_sorted xs ! i) = severity (issues_sorted xs ! j) \<longrightarrow>
             title (issues_sorted xs ! i) \<le> title (issues_sorted xs ! j))"
    by blast
  show ?thesis
    by (intro conjI p1 p2 p3 p4 p5 p6' p7 p8)
qed

theorem issues_sorted_stable_by_severity_title_witness:
  "issues_sorted unsorted_issues =
     [unsorted_issues ! 2, unsorted_issues ! 3, unsorted_issues ! 4, unsorted_issues ! 1, unsorted_issues ! 0]
   \<and> mset (issues_sorted unsorted_issues) = mset unsorted_issues
   \<and> sorted (map issue_key (issues_sorted unsorted_issues))
   \<and> map severity (issues_sorted unsorted_issues)
       = [''error'', ''warning'', ''warning'', ''warning'', ''info'']
   \<and> map detail (issues_sorted unsorted_issues) = [''d3'', ''first'', ''second'', ''d2'', ''d1'']"
proof -
  have e: "issues_sorted unsorted_issues =
     [unsorted_issues ! 2, unsorted_issues ! 3, unsorted_issues ! 4, unsorted_issues ! 1, unsorted_issues ! 0]"
    by (simp add: issues_sorted_def unsorted_issues_def issue_key_rank)
  note t = issues_sorted_stable_by_severity_title [where xs = unsorted_issues]
  from t have m: "mset (issues_sorted unsorted_issues) = mset unsorted_issues"
    by (rule conjunct1)
  from t have s: "sorted (map issue_key (issues_sorted unsorted_issues))"
    by (elim conjE)
  have sv: "map severity (issues_sorted unsorted_issues)
       = [''error'', ''warning'', ''warning'', ''warning'', ''info'']"
    unfolding e by (simp add: unsorted_issues_def)
  have dt: "map detail (issues_sorted unsorted_issues) = [''d3'', ''first'', ''second'', ''d2'', ''d1'']"
    unfolding e by (simp add: unsorted_issues_def)
  show ?thesis
    by (intro conjI e m s sv dt)
qed

subsection \<open>The local structural check\<close>

lemma doc_problems_expected:
  "metadata_absent_or_mapping d \<Longrightarrow> doc_problems i d = Inr (expected_problems i d)"
  by (auto simp: metadata_absent_or_mapping_def doc_problems_def expected_problems_def
      has_metadata_name_def Let_def split: yaml.splits option.splits)

lemma check_docs_expected:
  "list_all metadata_absent_or_mapping docs \<Longrightarrow>
   check_docs i docs = Inr (concat (map (\<lambda>(j, d). expected_problems j d) (zip [i ..< i + length docs] docs)))"
proof (induction docs arbitrary: i)
  case Nil
  show ?case by simp
next
  case (Cons d ds)
  have up: "[i ..< i + length (d # ds)] = i # [Suc i ..< Suc i + length ds]"
    by (simp add: upt_rec)
  from Cons.prems have "metadata_absent_or_mapping d" "list_all metadata_absent_or_mapping ds"
    by simp_all
  then show ?case
    unfolding up using Cons.IH [of "Suc i"] by (simp add: doc_problems_expected)
qed

lemma simple_local_manifest_check_problems:
  assumes "os_load_all os manifest_path (st_world st) = (Inr docs, w)"
    and "check_docs 0 docs = Inr problems"
  shows "simple_local_manifest_check os manifest_path st =
           (Inr (problems = [], if problems \<noteq> [] then py_join [CHR 0x0A] problems
                               else ''Basic YAML checks passed.''),
            \<lparr>st_world = w, st_trace = st_trace st @ [Load manifest_path]\<rparr>)"
  using assms by (simp add: simple_local_manifest_check_def Let_def)

lemma simple_local_manifest_check_raises:
  assumes "os_load_all os manifest_path (st_world st) = (Inr docs, w)"
    and "check_docs 0 docs = Inl e"
  shows "simple_local_manifest_check os manifest_path st =
           (Inl e, \<lparr>st_world = w, st_trace = st_trace st @ [Load manifest_path]\<rparr>)"
  using assms by (simp add: simple_local_manifest_check_def Let_def)

lemma validate_manifest_local:
  assumes "os_which os ''kubectl'' (st_world st) = (None, w0)"
    and "simple_local_manifest_check os manifest
           \<lparr>st_world = w0,
            st_trace = st_trace st @ [Print (''[manifest] Validating manifest: '' @ manifest), Which ''kubectl'']\<rparr>
         = (Inr (ok, out), st2)"
  shows "validate_manifest os manifest namespace st =
           (Inr (ok, out),
            py_print out (py_print ''[manifest] Kubectl not found; performed basic YAML checks:'' st2))"
  using assms by (simp add: validate_manifest_def kubectl_available_def py_print_def Let_def)

text \<open>
  C9. If opening and parsing the manifest succeeds with zero documents, the local check
  returns the verdict \<^verbatim>\<open>True\<close> with the text \<^verbatim>\<open>Basic YAML checks passed.\<close>, and so does
  \<open>validate_manifest\<close> when \<^verbatim>\<open>kubectl\<close> is not found: an empty manifest is accepted.
\<close>

theorem simple_local_manifest_check_zero_documents:
  assumes "os_load_all os manifest_path (st_world st) = (Inr [], w)"
  shows "simple_local_manifest_check os manifest_path st =
           (Inr (True, ''Basic YAML checks passed.''),
            \<lparr>st_world = w, st_trace = st_trace st @ [Load manifest_path]\<rparr>)
       \<and> (\<forall>st0 namespace.
             os_which os ''kubectl'' (st_world st0) = (None, st_world st)
             \<longrightarrow> fst (validate_manifest os manifest_path namespace st0)
                   = Inr (True, ''Basic YAML checks passed.''))"
proof -
  have a: "simple_local_manifest_check os manifest_path s =
           (Inr (True, ''Basic YAML checks passed.''),
            \<lparr>st_world = w, st_trace = st_trace s @ [Load manifest_path]\<rparr>)"
    if "st_world s = st_world st" for s :: "'a st"
    using simple_local_manifest_check_problems [of os manifest_path s "[]" w "[]"] assms that
    by simp
  have b: "fst (validate_manifest os manifest_path namespace st0)
             = Inr (True, ''Basic YAML checks passed.'')"
    if k: "os_which os ''kubectl'' (st_world st0) = (None, st_world st)" for st0 namespace
  proof -
    let ?s = "\<lparr>st_world = st_world st,
               st_trace = st_trace st0 @ [Print (''[manifest] Validating manifest: '' @ manifest_path),
                                          Which ''kubectl'']\<rparr>"
    have "simple_local_manifest_check os manifest_path ?s =
           (Inr (True, ''Basic YAML checks passed.''),
            \<lparr>st_world = w, st_trace = st_trace ?s @ [Load manifest_path]\<rparr>)"
      by (rule a) simp
    from validate_manifest_local [OF k this] show ?thesis by simp
  qed
  show ?thesis
    using a [of st] b by simp
qed

theorem simple_local_manifest_check_zero_documents_witness:
  "os_load_all os_local ''empty.yaml'' (st_world st_init) = (Inr [], ())
   \<and> simple_local_manifest_check os_local ''empty.yaml'' st_init =
       (Inr (True, ''Basic YAML checks passed.''), \<lparr>st_world = (), st_trace = [Load ''empty.yaml'']\<rparr>)
   \<and> fst (validate_manifest os_local ''empty.yaml'' None st_init)
       = Inr (True, ''Basic YAML checks passed.'')"
proof -
  have h: "os_load_all os_local ''empty.yaml'' (st_world st_init) = (Inr [], ())"
    by (simp add: os_local_def)
  have k: "os_which os_local ''kubectl'' (st_world st_init) = (None, st_world st_init)"
    by (simp add: os_local_def)
  note t = simple_local_manifest_check_zero_documents [OF h]
  from t have "simple_local_manifest_check os_local ''empty.yaml'' st_init =
       (Inr (True, ''Basic YAML checks passed.''),
        \<lparr>st_world = (), st_trace = st_trace st_init @ [Load ''empty.yaml'']\<rparr>)"
    by (rule conjunct1)
  moreover from t k have "fst (validate_manifest os_local ''empty.yaml'' None st_init)
       = Inr (True, ''Basic YAML checks passed.'')"
    by blast
  ultimately show ?thesis
    using h by (simp add: st_init_def)
qed

text \<open>
  C5. On documents whose \<^verbatim>\<open>metadata\<close> is absent or a mapping the local check records
  one problem string per missing requirement (\<open>check_docs_expected\<close>): the two-document file gives the failed
  verdict with two problem strings, and a parse failure differs from a file with zero
  documents. On a document whose \<^verbatim>\<open>metadata\<close> is present but not a mapping it does not:
  with \<^verbatim>\<open>metadata\<close> null the test \<^verbatim>\<open>"name" not in d.get("metadata", {})\<close> raises a
  \<^verbatim>\<open>TypeError\<close> that nothing catches, so there is no verdict, and with \<^verbatim>\<open>metadata\<close> the
  string \<^verbatim>\<open>unnamed\<close> the same test is a substring test that finds \<^verbatim>\<open>name\<close>, so the
  document passes although it has no \<^verbatim>\<open>metadata.name\<close>.
\<close>

theorem simple_local_manifest_check_metadata_not_mapping:
  "(\<exists>msg. simple_local_manifest_check os_local ''null-metadata.yaml'' st_init =
       (Inl (TypeError msg), \<lparr>st_world = (), st_trace = [Load ''null-metadata.yaml'']\<rparr>))
   \<and> expected_problems 0 doc_null_metadata = [''Document 0 missing metadata.name'']
   \<and> simple_local_manifest_check os_local ''string-metadata.yaml'' st_init =
       (Inr (True, ''Basic YAML checks passed.''),
        \<lparr>st_world = (), st_trace = [Load ''string-metadata.yaml'']\<rparr>)
   \<and> expected_problems 0 doc_string_metadata = [''Document 0 missing metadata.name'']
   \<and> simple_local_manifest_check os_local ''two.yaml'' st_init =
       (Inr (False, ''Document 0 missing '' @ [CHR 0x27] @ ''kind'' @ [CHR 0x27, CHR 0x0A]
                    @ ''Document 1 missing metadata.name''),
        \<lparr>st_world = (), st_trace = [Load ''two.yaml'']\<rparr>)
   \<and> simple_local_manifest_check os_local ''broken.yaml'' st_init =
       (Inr (False, ''YAML parse error: mapping values are not allowed here''),
        \<lparr>st_world = (), st_trace = [Load ''broken.yaml'']\<rparr>)
   \<and> simple_local_manifest_check os_local ''empty.yaml'' st_init =
       (Inr (True, ''Basic YAML checks passed.''), \<lparr>st_world = (), st_trace = [Load ''empty.yaml'']\<rparr>)"
proof -
  have s0: "str_nat 0 = ''0''" and s1: "str_nat (Suc 0) = ''1''"
    by (simp_all add: str_nat_digit)
  have c1: "check_docs 0 [doc_null_metadata]
              = Inl (TypeError (''argument of type '' @ [CHR 0x27] @ ''NoneType'' @ [CHR 0x27] @ '' is not iterable''))"
    by (simp add: doc_null_metadata_def doc_problems_def)
  have l1: "os_load_all os_local ''null-metadata.yaml'' (st_world st_init) = (Inr [doc_null_metadata], ())"
    by (simp add: os_local_def)
  have r1: "\<exists>msg. simple_local_manifest_check os_local ''null-metadata.yaml'' st_init =
       (Inl (TypeError msg), \<lparr>st_world = (), st_trace = [Load ''null-metadata.yaml'']\<rparr>)"
    using simple_local_manifest_check_raises [OF l1 c1] by (simp add: st_init_def)
  have e1: "expected_problems 0 doc_null_metadata = [''Document 0 missing metadata.name'']"
    by (simp add: expected_problems_def doc_null_metadata_def has_metadata_name_def s0)
  have c2: "check_docs 0 [doc_string_metadata] = Inr []"
    by (simp add: doc_string_metadata_def doc_problems_def)
  have l2: "os_load_all os_local ''string-metadata.yaml'' (st_world st_init) = (Inr [doc_string_metadata], ())"
    by (simp add: os_local_def)
  have r2: "simple_local_manifest_check os_local ''string-metadata.yaml'' st_init =
       (Inr (True, ''Basic YAML checks passed.''),
        \<lparr>st_world = (), st_trace = [Load ''string-metadata.yaml'']\<rparr>)"
    using simple_local_manifest_check_problems [OF l2 c2] by (simp add: st_init_def)
  have e2: "expected_problems 0 doc_string_metadata = [''Document 0 missing metadata.name'']"
    by (simp add: expected_problems_def doc_string_metadata_def has_metadata_name_def s0)
  have c3: "check_docs 0 [doc_no_kind, doc_no_name]
              = Inr [''Document 0 missing '' @ [CHR 0x27] @ ''kind'' @ [CHR 0x27],
                     ''Document 1 missing metadata.name'']"
    by (simp add: doc_no_kind_def doc_no_name_def doc_problems_def s0 s1)
  have l3: "os_load_all os_local ''two.yaml'' (st_world st_init) = (Inr [doc_no_kind, doc_no_name], ())"
    by (simp add: os_local_def)
  have r3: "simple_local_manifest_check os_local ''two.yaml'' st_init =
       (Inr (False, ''Document 0 missing '' @ [CHR 0x27] @ ''kind'' @ [CHR 0x27, CHR 0x0A]
                    @ ''Document 1 missing metadata.name''),
        \<lparr>st_world = (), st_trace = [Load ''two.yaml'']\<rparr>)"
    using simple_local_manifest_check_problems [OF l3 c3] by (simp add: st_init_def)
  have r4: "simple_local_manifest_check os_local ''broken.yaml'' st_init =
       (Inr (False, ''YAML parse error: mapping values are not allowed here''),
        \<lparr>st_world = (), st_trace = [Load ''broken.yaml'']\<rparr>)"
    by (simp add: simple_local_manifest_check_def os_local_def st_init_def)
  have l5: "os_load_all os_local ''empty.yaml'' (st_world st_init) = (Inr [], ())"
    by (simp add: os_local_def)
  have c5: "check_docs 0 [] = Inr []" by simp
  have r5: "simple_local_manifest_check os_local ''empty.yaml'' st_init =
       (Inr (True, ''Basic YAML checks passed.''), \<lparr>st_world = (), st_trace = [Load ''empty.yaml'']\<rparr>)"
    using simple_local_manifest_check_problems [OF l5 c5] by (simp add: st_init_def)
  show ?thesis
    by (intro conjI r1 e1 r2 e2 r3 r4 r5)
qed

subsection \<open>The apply gate\<close>

lemma mutating_py_print:
  "filter mutating (st_trace (py_print s st)) = filter mutating (st_trace st)"
  by (simp add: py_print_def)

lemma mutating_py_prints:
  "filter mutating (st_trace (py_prints ls st)) = filter mutating (st_trace st)"
  by (induction ls) (simp_all add: py_prints_def)

lemma mutating_map_Print: "filter mutating (map Print ls) = []"
  by (induction ls) simp_all

lemma load_k8s_config_trace:
  "load_k8s_config cl st = (r, st') \<Longrightarrow> filter mutating (st_trace st') = filter mutating (st_trace st)"
  by (auto simp: load_k8s_config_def mutating_py_print split: sum.splits if_splits)

lemma scan_cluster_trace:
  assumes "scan_cluster cl namespace st = (r, st')"
  shows "filter mutating (st_trace st') = filter mutating (st_trace st)"
proof -
  obtain r0 st0 where l: "load_k8s_config cl st = (r0, st0)"
    by (cases "load_k8s_config cl st")
  from load_k8s_config_trace [OF l]
  have m0: "filter mutating (st_trace st0) = filter mutating (st_trace st)" .
  show ?thesis
    using assms l m0
    by (auto simp: scan_cluster_def Let_def mutating_py_print split: sum.splits)
qed

lemma main_scan_trace:
  assumes "main_scan cl args st = (r, st')"
  shows "filter mutating (st_trace st') = filter mutating (st_trace st)"
proof (cases "a_no_scan args")
  case True
  with assms show ?thesis by (simp add: main_scan_def)
next
  case False
  obtain r0 st0 where s: "scan_cluster cl (a_namespace args) (py_print ''[main] Scanning cluster...'' st) = (r0, st0)"
    by (cases "scan_cluster cl (a_namespace args) (py_print ''[main] Scanning cluster...'' st)")
  from scan_cluster_trace [OF s]
  have "filter mutating (st_trace st0) = filter mutating (st_trace st)"
    by (simp add: mutating_py_print)
  with assms False s show ?thesis
    by (auto simp: main_scan_def mutating_py_prints split: sum.splits)
qed

lemma take3_dry_run_cmd:
  "take 3 (dry_run_cmd manifest namespace) = [''kubectl'', ''apply'', ''--dry-run=server'']"
  by (simp add: dry_run_cmd_def)

lemma take3_apply_cmd:
  "take 3 (apply_cmd manifest namespace) \<noteq> [''kubectl'', ''apply'', ''--dry-run=server'']"
  by (simp add: apply_cmd_def)

lemma kubectl_dry_run_trace:
  "kubectl_dry_run os manifest namespace st = (r, st') \<Longrightarrow>
   st_trace st' = st_trace st @ [Run (dry_run_cmd manifest namespace)]"
  by (auto simp: kubectl_dry_run_def Let_def split: prod.splits sum.splits if_splits)

lemma simple_local_manifest_check_trace:
  "simple_local_manifest_check os manifest st = (r, st') \<Longrightarrow>
   st_trace st' = st_trace st @ [Load manifest]"
  by (auto simp: simple_local_manifest_check_def Let_def split: prod.splits sum.splits if_splits)

lemma validate_manifest_trace:
  assumes "validate_manifest os manifest namespace st = (r, st')"
  shows "filter mutating (st_trace st') = filter mutating (st_trace st)"
proof -
  let ?st0 = "py_print (''[manifest] Validating manifest: '' @ manifest) st"
  obtain avail st1 where k: "kubectl_available os ?st0 = (avail, st1)"
    by (cases "kubectl_available os ?st0")
  then have t1: "st_trace st1 = st_trace st @ [Print (''[manifest] Validating manifest: '' @ manifest), Which ''kubectl'']"
    by (auto simp: kubectl_available_def py_print_def split: prod.splits)
  show ?thesis
  proof (cases avail)
    case True
    obtain r2 st2 where d: "kubectl_dry_run os manifest namespace st1 = (r2, st2)"
      by (cases "kubectl_dry_run os manifest namespace st1")
    from kubectl_dry_run_trace [OF d] t1
    have "filter mutating (st_trace st2) = filter mutating (st_trace st)"
      by (simp add: take3_dry_run_cmd)
    with assms k True d show ?thesis
      by (auto simp: validate_manifest_def Let_def mutating_py_print split: sum.splits if_splits)
  next
    case False
    obtain r2 st2 where d: "simple_local_manifest_check os manifest st1 = (r2, st2)"
      by (cases "simple_local_manifest_check os manifest st1")
    from simple_local_manifest_check_trace [OF d] t1
    have "filter mutating (st_trace st2) = filter mutating (st_trace st)"
      by simp
    with assms k False d show ?thesis
      by (auto simp: validate_manifest_def Let_def mutating_py_print split: sum.splits if_splits)
  qed
qed

lemma apply_manifest_trace:
  assumes "apply_manifest os manifest namespace st = (r, st')"
  shows "(r = Inr (False, ''kubectl not found'')
          \<and> st_trace st' = st_trace st @ [Which ''kubectl'',
               Print ''[apply] kubectl is required to apply manifests from this script.''])
       \<or> st_trace st' = st_trace st @ [Which ''kubectl'',
               Print (''[apply] Running: '' @ py_join '' '' (apply_cmd manifest namespace)),
               Run (apply_cmd manifest namespace)]"
  using assms
  by (auto simp: apply_manifest_def kubectl_available_def py_print_def Let_def
      split: prod.splits sum.splits if_splits)

lemma mutating_report_validation:
  "filter mutating (st_trace (report_validation ok st)) = filter mutating (st_trace st)"
  by (simp add: report_validation_def mutating_py_print mutating_py_prints)

lemma main_apply_raised:
  assumes "main_apply os manifest namespace sg = (r, st')"
    and "validate_manifest os manifest namespace
           (py_print ([CHR 0x0A] @ ''[main] User requested apply; performing server-side dry-run before apply once more...'') sg)
         = (Inl e, s3)"
  shows "r = Inl e \<and> st' = s3"
  using assms by (simp add: main_apply_def Let_def)

lemma main_apply_refused:
  assumes "main_apply os manifest namespace sg = (r, st')"
    and "validate_manifest os manifest namespace
           (py_print ([CHR 0x0A] @ ''[main] User requested apply; performing server-side dry-run before apply once more...'') sg)
         = (Inr (False, out2), s3)"
  shows "r = Inr () \<and> st' = py_print ''[main] Dry-run failed; NOT applying. Fix manifest first.'' s3"
  using assms by (auto simp: main_apply_def Let_def)

lemma main_apply_passed:
  assumes run: "main_apply os manifest namespace sg = (r, st')"
    and val: "validate_manifest os manifest namespace
                (py_print ([CHR 0x0A] @ ''[main] User requested apply; performing server-side dry-run before apply once more...'') sg)
              = (Inr (True, out2), s3)"
  shows "(\<exists>lines. st_trace st' = st_trace s3 @
                 [Print ''[main] Dry-run succeeded. Proceeding to apply (kubectl apply)...'',
                  Which ''kubectl'',
                  Print ''[apply] kubectl is required to apply manifests from this script.''] @ map Print lines)
           \<or> (\<exists>lines. st_trace st' = st_trace s3 @
                 [Print ''[main] Dry-run succeeded. Proceeding to apply (kubectl apply)...'',
                  Which ''kubectl'',
                  Print (''[apply] Running: '' @ py_join '' '' (apply_cmd manifest namespace)),
                  Run (apply_cmd manifest namespace)] @ map Print lines)"
    (is "?L \<or> ?R")
proof -
  let ?s4 = "py_print ''[main] Dry-run succeeded. Proceeding to apply (kubectl apply)...'' s3"
  obtain ra s5 where ap: "apply_manifest os manifest namespace ?s4 = (ra, s5)"
    by (cases "apply_manifest os manifest namespace ?s4")
  have t4: "st_trace ?s4 = st_trace s3 @ [Print ''[main] Dry-run succeeded. Proceeding to apply (kubectl apply)...'']"
    by (simp add: py_print_def)
  have fin: "\<exists>lines. st_trace st' = st_trace s5 @ map Print lines"
  proof (cases ra)
    case (Inl e)
    with run val ap have "st' = s5" by (simp add: main_apply_def Let_def)
    then have "st_trace st' = st_trace s5 @ map Print []" by simp
    then show ?thesis by blast
  next
    case (Inr p)
    obtain ok_apply apply_out where p: "p = (ok_apply, apply_out)" by (cases p)
    from run val ap Inr p
    have "st_trace st' = st_trace s5 @ map Print
            [apply_out, if \<not> ok_apply then ''[main] Apply failed; inspect the error output above.''
                        else ''[main] Apply succeeded (kubectl reported success).'']"
      by (auto simp: main_apply_def Let_def py_print_def)
    then show ?thesis by blast
  qed
  then obtain lines where l: "st_trace st' = st_trace s5 @ map Print lines" by blast
  from apply_manifest_trace [OF ap] consider
      (absent) "st_trace s5 = st_trace ?s4 @ [Which ''kubectl'',
               Print ''[apply] kubectl is required to apply manifests from this script.'']"
    | (ran) "st_trace s5 = st_trace ?s4 @ [Which ''kubectl'',
               Print (''[apply] Running: '' @ py_join '' '' (apply_cmd manifest namespace)),
               Run (apply_cmd manifest namespace)]"
    by auto
  then show ?thesis
  proof cases
    case absent
    with l t4 have "st_trace st' = st_trace s3 @
                 [Print ''[main] Dry-run succeeded. Proceeding to apply (kubectl apply)...'',
                  Which ''kubectl'',
                  Print ''[apply] kubectl is required to apply manifests from this script.''] @ map Print lines"
      by simp
    then have ?L by (rule exI)
    then show ?thesis by (rule disjI1)
  next
    case ran
    with l t4 have "st_trace st' = st_trace s3 @
                 [Print ''[main] Dry-run succeeded. Proceeding to apply (kubectl apply)...'',
                  Which ''kubectl'',
                  Print (''[apply] Running: '' @ py_join '' '' (apply_cmd manifest namespace)),
                  Run (apply_cmd manifest namespace)] @ map Print lines"
      by simp
    then have ?R by (rule exI)
    then show ?thesis by (rule disjI2)
  qed
qed

text \<open>
  C1. In a run that is given a manifest and asked to apply it, either no command other
  than a server-side dry-run is ever run, or the scan and the first validation returned,
  the second validation, made after them, returned the verdict \<^verbatim>\<open>True\<close>, and what
  follows it in the trace is the notice, the \<^verbatim>\<open>kubectl\<close> probe, the announcement and
  the one \<^verbatim>\<open>kubectl apply\<close>, then only printed lines. And whenever the second
  validation returns the verdict \<^verbatim>\<open>False\<close>, whatever the verdict \<open>ok1\<close> of the first,
  the run ends normally right after printing
  \<^verbatim>\<open>[main] Dry-run failed; NOT applying. Fix manifest first.\<close> and has run no such command.
\<close>

theorem main_applies_only_after_fresh_dry_run:
  assumes m: "a_manifest args = Some manifest" and ne: "manifest \<noteq> []" and ap: "a_apply args"
    and run: "main os cl args st = (r, st')"
  shows "(filter mutating (st_trace st') = filter mutating (st_trace st)
          \<or> (\<exists>s1 ok1 out1 s2 out2 s3 lines.
                main_scan cl args st = (Inr (), s1)
              \<and> validate_manifest os manifest (a_namespace args) s1 = (Inr (ok1, out1), s2)
              \<and> validate_manifest os manifest (a_namespace args)
                  (py_print ([CHR 0x0A] @ ''[main] User requested apply; performing server-side dry-run before apply once more...'')
                     (report_validation ok1 s2))
                  = (Inr (True, out2), s3)
              \<and> filter mutating (st_trace s3) = filter mutating (st_trace st)
              \<and> st_trace st' = st_trace s3 @
                   [Print ''[main] Dry-run succeeded. Proceeding to apply (kubectl apply)...'',
                    Which ''kubectl'',
                    Print (''[apply] Running: '' @ py_join '' '' (apply_cmd manifest (a_namespace args))),
                    Run (apply_cmd manifest (a_namespace args))] @ map Print lines
              \<and> filter mutating (st_trace st') =
                   filter mutating (st_trace st) @ [Run (apply_cmd manifest (a_namespace args))]))
       \<and> (\<forall>s1 ok1 out1 s2 out2 s3.
              main_scan cl args st = (Inr (), s1)
            \<and> validate_manifest os manifest (a_namespace args) s1 = (Inr (ok1, out1), s2)
            \<and> validate_manifest os manifest (a_namespace args)
                (py_print ([CHR 0x0A] @ ''[main] User requested apply; performing server-side dry-run before apply once more...'')
                   (report_validation ok1 s2))
                = (Inr (False, out2), s3)
            \<longrightarrow> r = Inr ()
              \<and> st' = py_print ''[main] Dry-run failed; NOT applying. Fix manifest first.'' s3
              \<and> filter mutating (st_trace st') = filter mutating (st_trace st))"
    (is "(?none \<or> ?applied) \<and> ?refused")
proof
  let ?ns = "a_namespace args"
  let ?once = "[CHR 0x0A] @ ''[main] User requested apply; performing server-side dry-run before apply once more...''"
  obtain r0 s1 where ms: "main_scan cl args st = (r0, s1)"
    by (cases "main_scan cl args st")
  have tr1: "filter mutating (st_trace s1) = filter mutating (st_trace st)"
    using ms by (rule main_scan_trace)
  show "?none \<or> ?applied"
  proof (cases r0)
    case (Inl e)
    with run ms have "st' = s1" by (simp add: main_def Let_def)
    with tr1 show ?thesis by simp
  next
    case u: (Inr u)
    obtain v1 s2 where v: "validate_manifest os manifest ?ns s1 = (v1, s2)"
      by (cases "validate_manifest os manifest ?ns s1")
    have tr2: "filter mutating (st_trace s2) = filter mutating (st_trace st)"
      using validate_manifest_trace [OF v] tr1 by simp
    show ?thesis
    proof (cases v1)
      case (Inl e)
      with run ms u v m ne have "st' = s2" by (simp add: main_def Let_def)
      with tr2 show ?thesis by simp
    next
      case p: (Inr p)
      obtain ok1 out1 where pe: "p = (ok1, out1)" by (cases p)
      let ?sg = "report_validation ok1 s2"
      from run ms u v p pe m ne ap
      have run': "main_apply os manifest ?ns ?sg = (r, st')"
        by (simp add: main_def Let_def)
      obtain v2 s3 where w: "validate_manifest os manifest ?ns (py_print ?once ?sg) = (v2, s3)"
        by (cases "validate_manifest os manifest ?ns (py_print ?once ?sg)")
      have tr3: "filter mutating (st_trace s3) = filter mutating (st_trace st)"
        using validate_manifest_trace [OF w] tr2
        by (simp add: mutating_py_print mutating_report_validation)
      show ?thesis
      proof (cases v2)
        case (Inl e)
        with main_apply_raised [OF run'] w have "st' = s3" by simp
        with tr3 show ?thesis by simp
      next
        case q: (Inr q)
        obtain ok2 out2 where qe: "q = (ok2, out2)" by (cases q)
        show ?thesis
        proof (cases ok2)
          case False
          with w q qe have "validate_manifest os manifest ?ns (py_print ?once ?sg) = (Inr (False, out2), s3)"
            by simp
          from main_apply_refused [OF run' this]
          have "st' = py_print ''[main] Dry-run failed; NOT applying. Fix manifest first.'' s3"
            by simp
          with tr3 show ?thesis by (simp add: mutating_py_print)
        next
          case True
          with w q qe have w': "validate_manifest os manifest ?ns (py_print ?once ?sg) = (Inr (True, out2), s3)"
            by simp
          from main_apply_passed [OF run' w'] consider
              (absent) lines where "st_trace st' = st_trace s3 @
                 [Print ''[main] Dry-run succeeded. Proceeding to apply (kubectl apply)...'',
                  Which ''kubectl'',
                  Print ''[apply] kubectl is required to apply manifests from this script.''] @ map Print lines"
            | (ran) lines where "st_trace st' = st_trace s3 @
                 [Print ''[main] Dry-run succeeded. Proceeding to apply (kubectl apply)...'',
                  Which ''kubectl'',
                  Print (''[apply] Running: '' @ py_join '' '' (apply_cmd manifest ?ns)),
                  Run (apply_cmd manifest ?ns)] @ map Print lines"
            by auto
          then show ?thesis
          proof cases
            case absent
            then have "filter mutating (st_trace st') = filter mutating (st_trace st)"
              using tr3 by (simp add: mutating_map_Print)
            then show ?thesis by simp
          next
            case ran
            then have fm: "filter mutating (st_trace st') =
                   filter mutating (st_trace st) @ [Run (apply_cmd manifest ?ns)]"
              using tr3 by (simp add: mutating_map_Print take3_apply_cmd)
            have "main_scan cl args st = (Inr (), s1)"
              using ms u by simp
            moreover have "validate_manifest os manifest ?ns s1 = (Inr (ok1, out1), s2)"
              using v p pe by simp
            ultimately have ?applied
              using w' tr3 ran fm by blast
            then show ?thesis by (rule disjI2)
          qed
        qed
      qed
    qed
  qed
  show ?refused
  proof (intro allI impI, elim conjE)
    fix s1 ok1 out1 s2 out2 s3
    assume a: "main_scan cl args st = (Inr (), s1)"
      and b: "validate_manifest os manifest ?ns s1 = (Inr (ok1, out1), s2)"
      and c: "validate_manifest os manifest ?ns (py_print ?once (report_validation ok1 s2))
                = (Inr (False, out2), s3)"
    from run m ne ap a b
    have run': "main_apply os manifest ?ns (report_validation ok1 s2) = (r, st')"
      by (simp add: main_def Let_def)
    from main_apply_refused [OF run' c]
    have res: "r = Inr ()" "st' = py_print ''[main] Dry-run failed; NOT applying. Fix manifest first.'' s3"
      by simp_all
    have "filter mutating (st_trace s3) = filter mutating (st_trace st)"
      using main_scan_trace [OF a] validate_manifest_trace [OF b] validate_manifest_trace [OF c]
      by (simp add: mutating_py_print mutating_report_validation)
    with res show "r = Inr ()
              \<and> st' = py_print ''[main] Dry-run failed; NOT applying. Fix manifest first.'' s3
              \<and> filter mutating (st_trace st') = filter mutating (st_trace st)"
      by (simp add: mutating_py_print)
  qed
qed

lemmas run_defs =
  main_def main_scan_def main_apply_def validate_manifest_def kubectl_available_def
  kubectl_dry_run_def apply_manifest_def report_validation_def py_print_def py_prints_def
  dry_run_cmd_def apply_cmd_def namespace_args_def args_apply_def st_zero_def Let_def

lemma last_py_print: "last (st_trace (py_print s st)) = Print s"
  by (simp add: py_print_def)

theorem main_applies_only_after_fresh_dry_run_witness:
  "a_manifest args_apply = Some ''app.yaml'' \<and> a_apply args_apply
   \<and> fst (validate_manifest os_flaky ''app.yaml'' None st_zero)
       = Inr (True, ''pod/app created (server dry run)'')
   \<and> fst (main os_flaky cluster_small args_apply st_zero) = Inr ()
   \<and> filter mutating (st_trace (snd (main os_flaky cluster_small args_apply st_zero))) = []
   \<and> last (st_trace (snd (main os_flaky cluster_small args_apply st_zero)))
       = Print ''[main] Dry-run failed; NOT applying. Fix manifest first.''
   \<and> filter mutating (st_trace (snd (main os_steady cluster_small args_apply st_zero)))
       = [Run [''kubectl'', ''apply'', ''-f'', ''app.yaml'']]"
proof -
  let ?once = "[CHR 0x0A] @ ''[main] User requested apply; performing server-side dry-run before apply once more...''"
  let ?v1 = "validate_manifest os_flaky ''app.yaml'' (a_namespace args_apply) st_zero"
  let ?v2 = "validate_manifest os_flaky ''app.yaml'' (a_namespace args_apply)
               (py_print ?once (report_validation True (snd ?v1)))"
  have m: "a_manifest args_apply = Some ''app.yaml''" and ap: "a_apply args_apply"
    and ns: "a_namespace args_apply = None"
    by (simp_all add: args_apply_def)
  have ne: "''app.yaml'' \<noteq> []" by simp
  have run: "main os_flaky cluster_small args_apply st_zero
               = (fst (main os_flaky cluster_small args_apply st_zero),
                  snd (main os_flaky cluster_small args_apply st_zero))"
    by simp
  have a: "main_scan cluster_small args_apply st_zero = (Inr (), st_zero)"
    by (simp add: main_scan_def args_apply_def)
  have f1: "fst ?v1 = Inr (True, ''pod/app created (server dry run)'')"
    by (simp add: run_defs os_flaky_def)
  then have b: "?v1 = (Inr (True, ''pod/app created (server dry run)''), snd ?v1)"
    by (metis prod.collapse)
  have f2: "fst ?v2 = Inr (False, ''error: connection refused'')"
    by (simp add: run_defs os_flaky_def)
  then have c: "?v2 = (Inr (False, ''error: connection refused''), snd ?v2)"
    by (metis prod.collapse)
  from main_applies_only_after_fresh_dry_run [OF m ne ap run]
  have "\<forall>s1 ok1 out1 s2 out2 s3.
              main_scan cluster_small args_apply st_zero = (Inr (), s1)
            \<and> validate_manifest os_flaky ''app.yaml'' (a_namespace args_apply) s1 = (Inr (ok1, out1), s2)
            \<and> validate_manifest os_flaky ''app.yaml'' (a_namespace args_apply)
                (py_print ?once (report_validation ok1 s2))
                = (Inr (False, out2), s3)
            \<longrightarrow> fst (main os_flaky cluster_small args_apply st_zero) = Inr ()
              \<and> snd (main os_flaky cluster_small args_apply st_zero)
                  = py_print ''[main] Dry-run failed; NOT applying. Fix manifest first.'' s3
              \<and> filter mutating (st_trace (snd (main os_flaky cluster_small args_apply st_zero)))
                  = filter mutating (st_trace st_zero)"
    by (rule conjunct2)
  with a b c
  have res: "fst (main os_flaky cluster_small args_apply st_zero) = Inr ()
       \<and> snd (main os_flaky cluster_small args_apply st_zero)
           = py_print ''[main] Dry-run failed; NOT applying. Fix manifest first.'' (snd ?v2)
       \<and> filter mutating (st_trace (snd (main os_flaky cluster_small args_apply st_zero)))
           = filter mutating (st_trace st_zero)"
    by blast
  from res have r1: "fst (main os_flaky cluster_small args_apply st_zero) = Inr ()"
    by (rule conjunct1)
  from res have "filter mutating (st_trace (snd (main os_flaky cluster_small args_apply st_zero)))
           = filter mutating (st_trace st_zero)"
    by (elim conjE)
  then have r2: "filter mutating (st_trace (snd (main os_flaky cluster_small args_apply st_zero))) = []"
    by (simp add: st_zero_def)
  from res have e: "snd (main os_flaky cluster_small args_apply st_zero)
           = py_print ''[main] Dry-run failed; NOT applying. Fix manifest first.'' (snd ?v2)"
    by (elim conjE)
  have r3: "last (st_trace (snd (main os_flaky cluster_small args_apply st_zero)))
       = Print ''[main] Dry-run failed; NOT applying. Fix manifest first.''"
    by (simp only: e last_py_print)
  have r4: "filter mutating (st_trace (snd (main os_steady cluster_small args_apply st_zero)))
       = [Run [''kubectl'', ''apply'', ''-f'', ''app.yaml'']]"
    by (simp add: run_defs os_steady_def)
  from f1 have f1': "fst (validate_manifest os_flaky ''app.yaml'' None st_zero)
       = Inr (True, ''pod/app created (server dry run)'')"
    by (simp add: ns)
  show ?thesis
    by (intro conjI m ap f1' r1 r2 r3 r4)
qed

end
